theory Spec2Isabelle
  imports Complex_Main "HOL-Library.Word"
begin

unbundle bit_operations_syntax

section \<open>Signal classes and framing state\<close>

text \<open>
  The signal classes are the integer codes of the header: for the 00523
  \<open>INV = -2\<close>, \<open>BIT_0_OFF = 0\<close>, \<open>BIT_0_ON = 1\<close>, \<open>BIT_1_OFF = 2\<close>, \<open>BIT_1_ON = 3\<close>,
  \<open>BITSTREAM_OFF = 4\<close>, \<open>BITSTREAM_ON = 5\<close>, \<open>CHUNK_END = 6\<close>; for the 00609
  \<open>INV = -2\<close>, \<open>OFF = -1\<close>, \<open>BIT_0 = 0\<close>, \<open>BIT_1 = 1\<close>, \<open>BITSTREAM_START = 2\<close>,
  \<open>BITSTREAM_END = 3\<close>, \<open>CHUNK_START = 4\<close>, \<open>CHUNK_END = 5\<close>.
\<close>

datatype signal523 =
    ACURITE523_SIGNAL_INV
  | ACURITE523_SIGNAL_BIT_0_OFF
  | ACURITE523_SIGNAL_BIT_0_ON
  | ACURITE523_SIGNAL_BIT_1_OFF
  | ACURITE523_SIGNAL_BIT_1_ON
  | ACURITE523_SIGNAL_BITSTREAM_OFF
  | ACURITE523_SIGNAL_BITSTREAM_ON
  | ACURITE523_SIGNAL_CHUNK_END

datatype signal609 =
    ACURITE609_SIGNAL_INV
  | ACURITE609_SIGNAL_OFF
  | ACURITE609_SIGNAL_BIT_0
  | ACURITE609_SIGNAL_BIT_1
  | ACURITE609_SIGNAL_BITSTREAM_START
  | ACURITE609_SIGNAL_BITSTREAM_END
  | ACURITE609_SIGNAL_CHUNK_START
  | ACURITE609_SIGNAL_CHUNK_END

definition ACURITE523_SIGNAL_BIT_LENGTH :: int where
  "ACURITE523_SIGNAL_BIT_LENGTH = 48"

definition ACURITE609_SIGNAL_BIT_LENGTH :: int where
  "ACURITE609_SIGNAL_BIT_LENGTH = 40"

text \<open>
  The private fields of \<open>Acurite609::Model\<close>; \<open>Acurite523::Model\<close> has the same ones and
  \<open>bitstream_opener_count\<close> in addition. \<open>bitstream_size\<close>, \<open>bitstream_opener_count\<close> and
  \<open>last_rfs_type\<close> are C \<open>int\<close>s. The \<open>devices\<close> vector is kept apart (see \<open>monitor\<close>
  below): no framing function reads or writes it.
\<close>

record 'sig model =
  is_acurite :: bool
  chunk_open :: bool
  bitstream :: "64 word"
  bitstream_size :: int
  bitstream_open :: bool
  last_rfs_type :: 'sig

record model523 = "signal523 model" +
  bitstream_opener_count :: int

type_synonym model609 = "signal609 model"

text \<open>
  The model objects are globals with constructors that set no framing field, so they
  start zero-initialised: every flag false, every number 0, and \<open>last_rfs_type = 0\<close>,
  which is the code of \<open>BIT_0_OFF\<close> (00523) and of \<open>BIT_0\<close> (00609).
\<close>

definition zero523 :: model523 where
  "zero523 =
     \<lparr> is_acurite = False, chunk_open = False, bitstream = 0, bitstream_size = 0,
       bitstream_open = False, last_rfs_type = ACURITE523_SIGNAL_BIT_0_OFF,
       bitstream_opener_count = 0 \<rparr>"

definition zero609 :: model609 where
  "zero609 =
     \<lparr> is_acurite = False, chunk_open = False, bitstream = 0, bitstream_size = 0,
       bitstream_open = False, last_rfs_type = ACURITE609_SIGNAL_BIT_0 \<rparr>"

section \<open>Acurite523::Model\<close>

definition clear523 :: "model523 \<Rightarrow> model523" where
  "clear523 s =
     s\<lparr> bitstream := 0, bitstream_size := 0, last_rfs_type := ACURITE523_SIGNAL_INV,
        bitstream_open := False, bitstream_opener_count := 0 \<rparr>"

definition get_rfs_type523 :: "8 word \<Rightarrow> 32 word \<Rightarrow> signal523" where
  "get_rfs_type523 rfs duration =
     (if rfs = 0 then
        (if 100 \<le> duration \<and> duration < 300 then ACURITE523_SIGNAL_BIT_0_OFF
         else if 300 \<le> duration \<and> duration < 500 then ACURITE523_SIGNAL_BIT_1_OFF
         else if 500 \<le> duration \<and> duration < 700 then ACURITE523_SIGNAL_BITSTREAM_OFF
         else ACURITE523_SIGNAL_INV)
      else if rfs = 1 then
        (if 100 \<le> duration \<and> duration < 300 then ACURITE523_SIGNAL_BIT_1_ON
         else if 300 \<le> duration \<and> duration < 500 then ACURITE523_SIGNAL_BIT_0_ON
         else if 500 \<le> duration \<and> duration < 700 then ACURITE523_SIGNAL_BITSTREAM_ON
         else if 20000 \<le> duration \<and> duration < 60000 then ACURITE523_SIGNAL_CHUNK_END
         else ACURITE523_SIGNAL_INV)
      else ACURITE523_SIGNAL_INV)"

definition open_bitstream523 :: "model523 \<Rightarrow> model523" where
  "open_bitstream523 s = s\<lparr> bitstream_open := True, bitstream_size := 0, bitstream := 0 \<rparr>"

definition close_bitstream523 :: "model523 \<Rightarrow> model523" where
  "close_bitstream523 s = s\<lparr> bitstream_open := False, bitstream_size := 0, bitstream := 0 \<rparr>"

definition open_chunk523 :: "model523 \<Rightarrow> model523" where
  "open_chunk523 s = open_bitstream523 (s\<lparr> chunk_open := True \<rparr>)"

definition close_chunk523 :: "model523 \<Rightarrow> model523" where
  "close_chunk523 s = close_bitstream523 (s\<lparr> chunk_open := False \<rparr>)"

text \<open>
  \<open>parse_rf\<close> returns the candidate (0 for none) and the new state. The shift
  \<open>(uint64_t)1L << (BIT_LENGTH - bitstream_size - 1)\<close> is only executed under the guard
  \<open>bitstream_size < BIT_LENGTH\<close>; its amount is below 64 whenever \<open>0 \<le> bitstream_size\<close>.
\<close>

definition parse_rf523 :: "model523 \<Rightarrow> 32 word \<Rightarrow> 8 word \<Rightarrow> 64 word \<times> model523" where
  "parse_rf523 s duration rfs =
     (let rfs_type = get_rfs_type523 rfs duration;
          (result, s1) =
            (if last_rfs_type s = ACURITE523_SIGNAL_BITSTREAM_OFF \<or> \<not> chunk_open s then
               let s' = (if rfs_type = ACURITE523_SIGNAL_BITSTREAM_ON
                         then s\<lparr> bitstream_opener_count := bitstream_opener_count s + 1 \<rparr>
                         else s)
               in (0, if bitstream_opener_count s' = 4 then
                        (let s'' = s'\<lparr> bitstream_opener_count := 0 \<rparr>
                         in if \<not> chunk_open s'' then open_chunk523 s'' else s'')
                      else s')
             else if last_rfs_type s = ACURITE523_SIGNAL_BIT_0_OFF \<and> chunk_open s then
               let (r, s') =
                     (if rfs_type = ACURITE523_SIGNAL_BIT_0_ON
                         \<and> bitstream_size s < ACURITE523_SIGNAL_BIT_LENGTH then
                        let s' = s\<lparr> bitstream_size := bitstream_size s + 1 \<rparr>
                        in if bitstream_size s' = ACURITE523_SIGNAL_BIT_LENGTH
                           then (bitstream s', close_bitstream523 s')
                           else (0, s')
                      else if rfs_type = ACURITE523_SIGNAL_BIT_1_ON
                         \<and> bitstream_size s = ACURITE523_SIGNAL_BIT_LENGTH then
                        (bitstream s, close_bitstream523 s)
                      else if rfs_type = ACURITE523_SIGNAL_CHUNK_END then
                        ((if bitstream_size s = ACURITE523_SIGNAL_BIT_LENGTH
                          then bitstream s else 0),
                         close_chunk523 s)
                      else (0, s))
               in (r, s'\<lparr> bitstream_opener_count := 0 \<rparr>)
             else if last_rfs_type s = ACURITE523_SIGNAL_BIT_1_OFF \<and> chunk_open s then
               (if rfs_type = ACURITE523_SIGNAL_BIT_1_ON
                   \<and> bitstream_size s < ACURITE523_SIGNAL_BIT_LENGTH then
                  let s' = s\<lparr> bitstream := bitstream s OR
                                push_bit (nat (ACURITE523_SIGNAL_BIT_LENGTH - bitstream_size s - 1)) 1 \<rparr>;
                      s'' = s'\<lparr> bitstream_size := bitstream_size s' + 1 \<rparr>
                  in if bitstream_size s'' = ACURITE523_SIGNAL_BIT_LENGTH
                     then (bitstream s'', close_bitstream523 s'')
                     else (0, s'')
                else (0, s))
             else (0, s))
      in (result, s1\<lparr> last_rfs_type := rfs_type \<rparr>))"

section \<open>Acurite609::Model\<close>

definition clear609 :: "model609 \<Rightarrow> model609" where
  "clear609 s =
     s\<lparr> bitstream := 0, bitstream_size := 0, last_rfs_type := ACURITE609_SIGNAL_INV,
        bitstream_open := False \<rparr>"

definition get_rfs_type609 :: "8 word \<Rightarrow> 32 word \<Rightarrow> signal609" where
  "get_rfs_type609 rfs duration =
     (if rfs = 0 then
        (if duration < 1200 then ACURITE609_SIGNAL_OFF else ACURITE609_SIGNAL_INV)
      else if rfs = 1 then
        (if duration < 300 then ACURITE609_SIGNAL_CHUNK_START
         else if 300 \<le> duration \<and> duration < 1200 then ACURITE609_SIGNAL_BIT_0
         else if 1200 \<le> duration \<and> duration < 3000 then ACURITE609_SIGNAL_BIT_1
         else if 8700 \<le> duration \<and> duration < 9000 then ACURITE609_SIGNAL_BITSTREAM_START
         else if 10000 \<le> duration \<and> duration < 20000 then ACURITE609_SIGNAL_BITSTREAM_END
         else if 20000 \<le> duration \<and> duration < 40000 then ACURITE609_SIGNAL_CHUNK_END
         else ACURITE609_SIGNAL_INV)
      else ACURITE609_SIGNAL_INV)"

definition is_bit_signal609 :: "signal609 \<Rightarrow> bool" where
  "is_bit_signal609 rfs_type \<longleftrightarrow>
     rfs_type = ACURITE609_SIGNAL_BIT_0 \<or> rfs_type = ACURITE609_SIGNAL_BIT_1"

definition open_bitstream609 :: "model609 \<Rightarrow> model609" where
  "open_bitstream609 s = s\<lparr> bitstream_open := True, bitstream_size := 0, bitstream := 0 \<rparr>"

definition close_bitstream609 :: "model609 \<Rightarrow> model609" where
  "close_bitstream609 s = s\<lparr> bitstream_open := False, bitstream_size := 0, bitstream := 0 \<rparr>"

definition open_chunk609 :: "model609 \<Rightarrow> model609" where
  "open_chunk609 s = open_bitstream609 (s\<lparr> chunk_open := True \<rparr>)"

definition close_chunk609 :: "model609 \<Rightarrow> model609" where
  "close_chunk609 s = close_bitstream609 (s\<lparr> chunk_open := False \<rparr>)"

definition parse_rf609 :: "model609 \<Rightarrow> 32 word \<Rightarrow> 8 word \<Rightarrow> 64 word \<times> model609" where
  "parse_rf609 s duration rfs =
     (let rfs_type = get_rfs_type609 rfs duration;
          (result, s1) =
            (if last_rfs_type s = ACURITE609_SIGNAL_OFF \<and> \<not> chunk_open s then
               (0, if rfs_type = ACURITE609_SIGNAL_BITSTREAM_START then open_chunk609 s else s)
             else if last_rfs_type s = ACURITE609_SIGNAL_OFF \<and> chunk_open s then
               (if rfs_type = ACURITE609_SIGNAL_BITSTREAM_START \<and> \<not> bitstream_open s then
                  ((if bitstream_size s = ACURITE609_SIGNAL_BIT_LENGTH then bitstream s else 0),
                   open_bitstream609 s)
                else if rfs_type = ACURITE609_SIGNAL_BITSTREAM_END \<and> bitstream_open s then
                  ((if bitstream_size s = ACURITE609_SIGNAL_BIT_LENGTH then bitstream s else 0),
                   close_bitstream609 s)
                else if rfs_type = ACURITE609_SIGNAL_CHUNK_END then
                  (let s' = s\<lparr> last_rfs_type := rfs_type \<rparr>
                   in ((if bitstream_size s' = ACURITE609_SIGNAL_BIT_LENGTH
                        then bitstream s' else 0),
                       close_chunk609 s'))
                else if is_bit_signal609 rfs_type \<and> bitstream_open s then
                  let s' = (if rfs_type = ACURITE609_SIGNAL_BIT_1
                               \<and> bitstream_size s < ACURITE609_SIGNAL_BIT_LENGTH
                            then s\<lparr> bitstream := bitstream s OR
                                     push_bit (nat (ACURITE609_SIGNAL_BIT_LENGTH - bitstream_size s - 1)) 1 \<rparr>
                            else s);
                      s'' = s'\<lparr> bitstream_size := bitstream_size s' + 1 \<rparr>
                  in if bitstream_size s'' = ACURITE609_SIGNAL_BIT_LENGTH
                     then (bitstream s'', close_bitstream609 s'')
                     else (0, s'')
                else (0, s))
             else (0, s))
      in (result, s1\<lparr> last_rfs_type := rfs_type \<rparr>))"

section \<open>Driving a model\<close>

text \<open>
  A model is driven by \<open>parse_rf\<close> calls, one per edge event, and by the \<open>clear\<close> calls
  of \<open>resetRf\<close>. \<open>run\<close> gives the state after a sequence of calls, \<open>trace\<close> the values
  the \<open>parse_rf\<close> calls returned, in order (a \<open>clear\<close> returns nothing).
\<close>

datatype call = Parse_rf "32 word" "8 word" | Clear

fun step523 :: "model523 \<Rightarrow> call \<Rightarrow> model523" where
  "step523 s (Parse_rf duration rfs) = snd (parse_rf523 s duration rfs)"
| "step523 s Clear = clear523 s"

fun step609 :: "model609 \<Rightarrow> call \<Rightarrow> model609" where
  "step609 s (Parse_rf duration rfs) = snd (parse_rf609 s duration rfs)"
| "step609 s Clear = clear609 s"

definition run523 :: "model523 \<Rightarrow> call list \<Rightarrow> model523" where
  "run523 s cs = foldl step523 s cs"

definition run609 :: "model609 \<Rightarrow> call list \<Rightarrow> model609" where
  "run609 s cs = foldl step609 s cs"

section \<open>Binary32 arithmetic\<close>

text \<open>
  The devices hold \<open>float\<close> fields (IEEE 754 binary32 on the ESP32). A \<open>float\<close> is
  modelled by the real number it denotes, and every operation that produces a \<open>float\<close>
  rounds its exact result with \<open>float32\<close>: to the nearest multiple of the unit in the
  last place of the result's binade (24 significant bits, units of \<open>2^-149\<close> in the
  subnormal range), ties to the even significand. \<open>float_ulp k u a\<close> searches that unit
  upwards from \<open>u\<close>; 253 doublings reach the top binade. Overflow to infinity (beyond
  \<open>2^128\<close>) is not modelled: no value computed here exceeds \<open>2^17\<close>.
\<close>

definition round_half_even :: "real \<Rightarrow> int" where
  "round_half_even y =
     (let f = \<lfloor>y\<rfloor>; r = y - of_int f
      in if r < 1 / 2 then f else if 1 / 2 < r then f + 1 else if even f then f else f + 1)"

fun float_ulp :: "nat \<Rightarrow> real \<Rightarrow> real \<Rightarrow> real" where
  "float_ulp 0 u a = u"
| "float_ulp (Suc k) u a = (if a < u * 2 ^ 24 then u else float_ulp k (2 * u) a)"

definition float32 :: "real \<Rightarrow> real" where
  "float32 x =
     (let u = float_ulp 253 (1 / 2 ^ 149) \<bar>x\<bar>
      in of_int (round_half_even (x / u)) * u)"

text \<open>
  \<open>int16_t(f)\<close> and \<open>(uint16_t)f\<close> discard the fraction (round towards zero). The result
  is undefined in C++ when it does not fit the target type; the model wraps there.
\<close>

definition truncate_float :: "real \<Rightarrow> int" where
  "truncate_float x = (if 0 \<le> x then \<lfloor>x\<rfloor> else \<lceil>x\<rceil>)"

definition int16_of_float :: "real \<Rightarrow> 16 word" where
  "int16_of_float x = word_of_int (truncate_float x)"

definition uint16_of_float :: "real \<Rightarrow> 16 word" where
  "uint16_of_float x = word_of_int (truncate_float x)"

section \<open>Constants, payload and devices\<close>

definition TAG_TEMPMONITOR :: "32 word" where "TAG_TEMPMONITOR = 0x38073162"

definition MODEL_ACURITE523 :: "16 word" where "MODEL_ACURITE523 = 1592"
definition MODEL_ACURITE609 :: "16 word" where "MODEL_ACURITE609 = 6585"

definition DEVICE_FREEZER :: "16 word" where "DEVICE_FREEZER = 9690"
definition DEVICE_FRIDGE :: "16 word" where "DEVICE_FRIDGE = 7784"
definition DEVICE_OUTDOOR :: "16 word" where "DEVICE_OUTDOOR = 8501"

definition STATUS_UNKNOWN :: "8 word" where "STATUS_UNKNOWN = 0"
definition STATUS_OK :: "8 word" where "STATUS_OK = 1"
definition STATUS_READ_FAIL :: "8 word" where "STATUS_READ_FAIL = 2"
definition STATUS_TIMEOUT :: "8 word" where "STATUS_TIMEOUT = 3"
definition STATUS_NO_DATA :: "8 word" where "STATUS_NO_DATA = 4"

definition ACURITE523_SIG_FREEZER :: "16 word" where "ACURITE523_SIG_FREEZER = 0xc049"
definition ACURITE523_SIG_FRIDGE :: "16 word" where "ACURITE523_SIG_FRIDGE = 0xc07c"

definition ACURITE609_CHANNEL_ID :: int where "ACURITE609_CHANNEL_ID = 2"

text \<open>
  \<open>struct Payload\<close>; its \<open>int16_t\<close> fields are read with \<open>sint\<close>. The fields carry the
  prefix \<open>payload_\<close> because the devices have fields of the same names.
\<close>

record payload =
  payload_tag :: "32 word"
  payload_model :: "16 word"
  payload_device :: "16 word"
  payload_status :: "8 word"
  payload_battery :: "8 word"
  payload_temperature :: "16 word"
  payload_humidity :: "16 word"

text \<open>
  \<open>Acurite523::Device\<close> has the fields \<open>device\<close>, \<open>signature\<close>, \<open>battery\<close> and
  \<open>temperature\<close>; \<open>Acurite609::Device\<close> has \<open>humidity\<close> in addition.
\<close>

record device523 =
  device :: "16 word"
  signature :: "16 word"
  battery :: "8 word"
  temperature :: real

record device609 = device523 +
  humidity :: real

section \<open>Acurite523::Device\<close>

definition Device523 :: "16 word \<Rightarrow> device523" where
  "Device523 dev =
     \<lparr> device = dev,
       signature = (if dev = DEVICE_FREEZER then ACURITE523_SIG_FREEZER
                    else if dev = DEVICE_FRIDGE then ACURITE523_SIG_FRIDGE
                    else 0),
       battery = 0,
       temperature = 0 \<rparr>"

definition create_payload523 :: "device523 \<Rightarrow> 8 word \<Rightarrow> payload" where
  "create_payload523 d status =
     \<lparr> payload_tag = TAG_TEMPMONITOR,
       payload_model = MODEL_ACURITE523,
       payload_device = device d,
       payload_status = status,
       payload_battery = battery d,
       payload_temperature = int16_of_float (float32 (temperature d * 10)),
       payload_humidity = 0 \<rparr>"

definition validate_checksum523 :: "64 word \<Rightarrow> bool" where
  "validate_checksum523 bits =
     (let checksum = (ucast (bits AND 0xff) :: 8 word);
          calculated = (ucast (((drop_bit 8 bits AND 0xff)
                                + (drop_bit 16 bits AND 0xff)
                                + (drop_bit 24 bits AND 0xff)
                                + (drop_bit 32 bits AND 0xff)
                                + drop_bit 40 bits) AND 0xff) :: 32 word)
      in ucast checksum = calculated)"

text \<open>The loop \<open>for (int i = 0; i < 8; i++) { on_bits += value & 1; value >>= 1; }\<close>.\<close>

function validate_parity_loop :: "int \<Rightarrow> int \<Rightarrow> 8 word \<Rightarrow> int" where
  "validate_parity_loop i on_bits v =
     (if i < 8 then validate_parity_loop (i + 1) (on_bits + uint (v AND 1)) (drop_bit 1 v)
      else on_bits)"
  by pat_completeness auto
termination
  by (relation "measure (\<lambda>(i, on_bits, v). nat (8 - i))") auto

declare validate_parity_loop.simps [simp del]

definition validate_parity523 :: "8 word \<Rightarrow> 8 word \<Rightarrow> bool" where
  "validate_parity523 parity v \<longleftrightarrow> validate_parity_loop 0 0 v mod 2 = uint parity"

text \<open>
  \<open>validate_bitstream\<close> returns its verdict and the device after the call; its
  parameter \<open>bitstream\<close> is called \<open>bits\<close> here. The \<open>Serial\<close> printing is left out.
\<close>

definition validate_bitstream523 :: "device523 \<Rightarrow> 64 word \<Rightarrow> bool \<times> device523" where
  "validate_bitstream523 d bits =
     (if bits = 0 then (False, d)
      else
        let sig = (ucast (drop_bit 32 bits) :: 16 word)
        in if sig \<noteq> signature d then (False, d)
           else if \<not> validate_checksum523 bits then (False, d)
           else
             let bat = (ucast (drop_bit 30 bits AND 0x03) :: 8 word);
                 parity1 = (ucast (drop_bit 15 bits AND 1) :: 8 word);
                 byte1 = (ucast (drop_bit 8 bits AND 0x7f) :: 8 word);
                 parity2 = (ucast (drop_bit 23 bits AND 1) :: 8 word);
                 byte2 = (ucast (drop_bit 16 bits AND 0x7f) :: 8 word)
             in if \<not> validate_parity523 parity1 byte1 \<or> \<not> validate_parity523 parity2 byte2
                then (False, d)
                else
                  let raw = float32 (of_int (push_bit 7 (uint byte2) OR uint byte1));
                      temp = float32 (float32 (raw - 1800) / 18)
                  in if temp < - 40 \<or> 70 \<le> temp then (False, d)
                     else (True, d\<lparr> battery := bat, temperature := temp \<rparr>))"

section \<open>Acurite609::Device\<close>

definition Device609 :: "16 word \<Rightarrow> device609" where
  "Device609 dev =
     \<lparr> device = dev, signature = 0, battery = 0, temperature = 0, humidity = 0 \<rparr>"

definition create_payload609 :: "device609 \<Rightarrow> 8 word \<Rightarrow> payload" where
  "create_payload609 d status =
     \<lparr> payload_tag = TAG_TEMPMONITOR,
       payload_model = MODEL_ACURITE609,
       payload_device = device d,
       payload_status = status,
       payload_battery = battery d,
       payload_temperature = int16_of_float (float32 (temperature d * 10)),
       payload_humidity = int16_of_float (float32 (humidity d * 10)) \<rparr>"

definition validate_checksum609 :: "64 word \<Rightarrow> bool" where
  "validate_checksum609 bits =
     (let checksum = (ucast (bits AND 0xff) :: 8 word);
          calculated = (ucast (((drop_bit 8 bits AND 0xff)
                                + (drop_bit 16 bits AND 0xff)
                                + (drop_bit 24 bits AND 0xff)
                                + drop_bit 32 bits) AND 0xff) :: 32 word)
      in ucast checksum = calculated)"

text \<open>
  The sign test of the source is \<open>(uint16_t)temp & 0x1000 == 0x1000\<close>. In C++ \<open>==\<close>
  binds tighter than \<open>&\<close>, so the condition is \<open>(uint16_t)temp & (0x1000 == 0x1000)\<close>,
  that is \<open>(uint16_t)temp & 1\<close>: it tests the lowest bit of the raw temperature.
\<close>

definition validate_bitstream609 :: "device609 \<Rightarrow> 64 word \<Rightarrow> bool \<times> device609" where
  "validate_bitstream609 d bits =
     (if bits = 0 then (False, d)
      else
        let sig = (ucast (drop_bit 32 bits) :: 16 word)
        in if signature d \<noteq> 0 \<and> signature d \<noteq> sig then (False, d)
           else
             let cha = uint (drop_bit 28 bits AND 0x03)
             in if cha \<noteq> ACURITE609_CHANNEL_ID then (False, d)
                else if \<not> validate_checksum609 bits then (False, d)
                else
                  let bat = (ucast (drop_bit 30 bits AND 0x03) :: 8 word);
                      raw = float32 (of_int (uint (drop_bit 15 bits AND 0x1fff)));
                      signed = (if uint (uint16_of_float raw) AND of_bool ((0x1000 :: int) = 0x1000) \<noteq> 0
                                then - float32 (0x2000 - raw)
                                else raw);
                      temp = float32 (signed / 20);
                      hum = float32 (of_int (uint (drop_bit 8 bits AND 0x7f)))
                  in if hum < 1 \<or> 99 < hum \<or> temp < - 40 \<or> 70 < temp then (False, d)
                     else (True, d\<lparr> signature := (if signature d = 0 then sig else signature d),
                                      battery := bat, humidity := hum, temperature := temp \<rparr>))"

section \<open>The dispatcher\<close>

text \<open>
  The globals of the sketch: the two models and their \<open>devices\<close> vectors
  (\<open>{freezer, fridge}\<close> and \<open>{outdoor}\<close>).
\<close>

record monitor =
  acurite523 :: model523
  devices523 :: "device523 list"
  acurite609 :: model609
  devices609 :: "device609 list"

definition setup_monitor :: monitor where
  "setup_monitor =
     \<lparr> acurite523 = zero523,
       devices523 = [Device523 DEVICE_FREEZER, Device523 DEVICE_FRIDGE],
       acurite609 = zero609,
       devices609 = [Device609 DEVICE_OUTDOOR] \<rparr>"

text \<open>\<open>updateStats\<close> builds the payload of the accepting device with \<open>STATUS_OK\<close>.\<close>

definition updateStats523 :: "device523 \<Rightarrow> payload" where
  "updateStats523 d = create_payload523 d STATUS_OK"

definition updateStats609 :: "device609 \<Rightarrow> payload" where
  "updateStats609 d = create_payload609 d STATUS_OK"

text \<open>
  The loops \<open>for (Device device : model.devices)\<close> of \<open>parseRf\<close>: each device is copied
  out of the vector, the copy validates the candidate, and the first copy that accepts is
  passed to \<open>updateStats\<close>. The vector itself is not written.
\<close>

fun parseRf_devices523 :: "device523 list \<Rightarrow> 64 word \<Rightarrow> payload option" where
  "parseRf_devices523 [] result = None"
| "parseRf_devices523 (d # ds) result =
     (case validate_bitstream523 d result of
        (True, d') \<Rightarrow> Some (updateStats523 d')
      | (False, d') \<Rightarrow> parseRf_devices523 ds result)"

fun parseRf_devices609 :: "device609 list \<Rightarrow> 64 word \<Rightarrow> payload option" where
  "parseRf_devices609 [] result = None"
| "parseRf_devices609 (d # ds) result =
     (case validate_bitstream609 d result of
        (True, d') \<Rightarrow> Some (updateStats609 d')
      | (False, d') \<Rightarrow> parseRf_devices609 ds result)"

text \<open>
  \<open>parseRf\<close> returns its boolean, the payload handed to \<open>updateStats\<close> (if any) and the
  globals after the call. The 00609 model is polled only when no 00523 device accepted.
\<close>

definition parseRf :: "monitor \<Rightarrow> 32 word \<Rightarrow> 8 word \<Rightarrow> (bool \<times> payload option) \<times> monitor" where
  "parseRf g duration rfs =
     (let (result, m523) = parse_rf523 (acurite523 g) duration rfs;
          g1 = g\<lparr> acurite523 := m523 \<rparr>
      in case (if result \<noteq> 0 then parseRf_devices523 (devices523 g1) result else None) of
           Some p \<Rightarrow> ((True, Some p), g1)
         | None \<Rightarrow>
             (let (result, m609) = parse_rf609 (acurite609 g1) duration rfs;
                  g2 = g1\<lparr> acurite609 := m609 \<rparr>
              in case (if result \<noteq> 0 then parseRf_devices609 (devices609 g2) result else None) of
                   Some p \<Rightarrow> ((True, Some p), g2)
                 | None \<Rightarrow> ((False, None), g2)))"

definition resetRf :: "monitor \<Rightarrow> monitor" where
  "resetRf g = g\<lparr> acurite523 := clear523 (acurite523 g), acurite609 := clear609 (acurite609 g) \<rparr>"

section \<open>Invariants and test streams\<close>

text \<open>
  \<open>framing_inv len\<close> is the invariant of the framing state: at most \<open>len\<close> bits are held,
  the accumulator has no bit at or above position \<open>len\<close> and none below position
  \<open>len - bitstream_size\<close>, and an open bitstream lies in an open chunk. \<open>accumulating len\<close>
  is the stronger property that every call preserves: fewer than \<open>len\<close> bits are held.
\<close>

definition accumulating :: "int \<Rightarrow> ('sig, 'z) model_scheme \<Rightarrow> bool" where
  "accumulating len s \<longleftrightarrow>
     0 \<le> bitstream_size s \<and> bitstream_size s < len
       \<and> take_bit (nat len) (bitstream s) = bitstream s
       \<and> take_bit (nat (len - bitstream_size s)) (bitstream s) = 0
       \<and> (bitstream_open s \<longrightarrow> chunk_open s)"

definition framing_inv :: "int \<Rightarrow> ('sig, 'z) model_scheme \<Rightarrow> bool" where
  "framing_inv len s \<longleftrightarrow>
     bitstream_size s \<le> len
       \<and> unat (bitstream s) < 2 ^ nat len
       \<and> unat (bitstream s) mod 2 ^ nat (len - bitstream_size s) = 0
       \<and> (bitstream_open s \<longrightarrow> chunk_open s)"

text \<open>
  Pulse streams. \<open>opener523\<close> is one wide OFF/ON pair of the 00523 preamble and \<open>one523\<close> a
  1 bit of the 00523 (the 00609 reads its ON pulse as \<open>CHUNK_START\<close> and ignores it);
  \<open>start609\<close> opens a 00609 block and \<open>one609\<close> is a 1 bit of the 00609 (the 00523 reads
  their ON pulses as \<open>INV\<close>); \<open>zero_both\<close> is a 0 bit for both models. \<open>burst\<close> is a
  \<open>clear\<close> followed by all the edges of a transmission but its last ON pulse.
\<close>

definition repeat :: "nat \<Rightarrow> 'a list \<Rightarrow> 'a list" where
  "repeat n xs = concat (replicate n xs)"

definition opener523 :: "call list" where "opener523 = [Parse_rf 600 0, Parse_rf 600 1]"
definition one523 :: "call list" where "one523 = [Parse_rf 400 0, Parse_rf 200 1]"
definition zero_both :: "call list" where "zero_both = [Parse_rf 200 0, Parse_rf 400 1]"
definition start609 :: "call list" where "start609 = [Parse_rf 200 0, Parse_rf 8800 1]"
definition one609 :: "call list" where "one609 = [Parse_rf 200 0, Parse_rf 1500 1]"

definition burst :: "call list" where
  "burst = Clear # repeat 4 opener523 @ repeat 9 one523 @ start609 @ one609
             @ repeat 38 zero_both @ [Parse_rf 200 0]"

text \<open>
  A block written as a string of \<open>0\<close> and \<open>1\<close>, first bit first, becomes the pulses that
  carry it. \<open>S1_stream\<close> is a \<open>clear\<close>, the 00523 preamble and all the edges but the last
  ON pulse of the 48-bit block \<open>0xC049C98B3C99\<close> (the first sample of
  \<open>docs/acurite523.md\<close>): its first 47 bits and the OFF half of its last bit, a 1.
  \<open>S5_stream\<close> is the same for the block with the lowest checksum bit flipped,
  \<open>0xC049C98B3C98\<close>, whose last bit is a 0. \<open>S3_stream\<close> is the same for the 40-bit block
  \<open>0xC0A15B25E1\<close> of \<open>docs/acurite609.md\<close> and \<open>S4_stream\<close> for its below-freezing block
  \<open>0xC0AFC14575\<close>. \<open>zero_block523\<close> and \<open>zero_block609\<close> carry blocks of zero bits only.
\<close>

definition pulses523 :: "string \<Rightarrow> call list" where
  "pulses523 bits = concat (map (\<lambda>c. if c = CHR ''1'' then one523 else zero_both) bits)"

definition pulses609 :: "string \<Rightarrow> call list" where
  "pulses609 bits = concat (map (\<lambda>c. if c = CHR ''1'' then one609 else zero_both) bits)"

definition S1_stream :: "call list" where
  "S1_stream = Clear # repeat 4 opener523
                 @ pulses523 ''11000000010010011100100110001011001111001001100''
                 @ [Parse_rf 400 0]"

definition S5_stream :: "call list" where
  "S5_stream = Clear # repeat 4 opener523
                 @ pulses523 ''11000000010010011100100110001011001111001001100''
                 @ [Parse_rf 200 0]"

definition S3_stream :: "call list" where
  "S3_stream = Clear # start609
                 @ pulses609 ''110000001010000101011011001001011110000''
                 @ [Parse_rf 200 0]"

definition S4_stream :: "call list" where
  "S4_stream = Clear # start609
                 @ pulses609 ''110000001010111111000001010001010111010''
                 @ [Parse_rf 200 0]"

definition zero_block523 :: "call list" where
  "zero_block523 = Clear # repeat 4 opener523 @ repeat 47 zero_both @ [Parse_rf 200 0]"

definition zero_block609 :: "call list" where
  "zero_block609 = Clear # start609 @ repeat 39 zero_both @ [Parse_rf 200 0]"

text \<open>
  The checksum property in the words of the specification: the low byte of an \<open>n\<close>-byte
  candidate equals the sum of its \<open>n - 1\<close> higher bytes modulo 256.
\<close>

definition low_byte_is_byte_sum :: "nat \<Rightarrow> 64 word \<Rightarrow> bool" where
  "low_byte_is_byte_sum n w \<longleftrightarrow>
     unat (w AND 0xff) = (\<Sum>i\<leftarrow>[1..<n]. unat (drop_bit (8 * i) w AND 0xff)) mod 256"

section \<open>Theorems\<close>

lemma run523_Nil [simp]: "run523 s [] = s"
  by (simp add: run523_def)

lemma run523_Cons [simp]: "run523 s (c # cs) = run523 (step523 s c) cs"
  by (simp add: run523_def)

lemma run523_snoc [simp]: "run523 s (cs @ [c]) = step523 (run523 s cs) c"
  by (simp add: run523_def)

lemma run609_Nil [simp]: "run609 s [] = s"
  by (simp add: run609_def)

lemma run609_Cons [simp]: "run609 s (c # cs) = run609 (step609 s c) cs"
  by (simp add: run609_def)

lemma run609_snoc [simp]: "run609 s (cs @ [c]) = step609 (run609 s cs) c"
  by (simp add: run609_def)

lemma repeat_1: "repeat 1 xs = xs" "repeat (Suc 0) xs = xs" "repeat Numeral1 xs = xs"
  by (simp_all add: repeat_def)

lemma repeat_Bit0: "repeat (numeral (num.Bit0 k)) xs = repeat (numeral k) xs @ repeat (numeral k) xs"
  by (simp only: repeat_def numeral_Bit0 replicate_add concat_append)

lemma repeat_Bit1:
  "repeat (numeral (num.Bit1 k)) xs = repeat (numeral k) xs @ repeat (numeral k) xs @ xs"
proof -
  have "concat (replicate (1::nat) xs) = xs" by simp
  then show ?thesis
    by (simp only: repeat_def numeral_Bit1 replicate_add concat_append append_assoc)
qed

lemmas repeat_simps = repeat_1 repeat_Bit0 repeat_Bit1

lemmas stream_defs = burst_def opener523_def one523_def zero_both_def start609_def one609_def

lemmas framing523_defs =
  open_bitstream523_def close_bitstream523_def open_chunk523_def close_chunk523_def
  ACURITE523_SIGNAL_BIT_LENGTH_def

lemmas framing609_defs =
  open_bitstream609_def close_bitstream609_def open_chunk609_def close_chunk609_def
  ACURITE609_SIGNAL_BIT_LENGTH_def is_bit_signal609_def

lemmas eval523 = zero523_def clear523_def parse_rf523_def get_rfs_type523_def Let_def framing523_defs
lemmas eval609 = zero609_def clear609_def parse_rf609_def get_rfs_type609_def Let_def framing609_defs

lemma burst523:
  "run523 zero523 burst =
     \<lparr> is_acurite = False, chunk_open = True, bitstream = 0xFF8000000000, bitstream_size = 47,
       bitstream_open = True, last_rfs_type = ACURITE523_SIGNAL_BIT_0_OFF,
       bitstream_opener_count = 0 \<rparr>"
  by (simp add: stream_defs repeat_simps eval523)

lemma burst609:
  "run609 zero609 burst =
     \<lparr> is_acurite = False, chunk_open = True, bitstream = 0x8000000000, bitstream_size = 39,
       bitstream_open = True, last_rfs_type = ACURITE609_SIGNAL_OFF \<rparr>"
  by (simp add: stream_defs repeat_simps eval609)

lemma take_bit_eq_self_iff_bits:
  fixes w :: "'a::len word"
  shows "take_bit n w = w \<longleftrightarrow> (\<forall>i. bit w i \<longrightarrow> i < n)"
proof
  assume h: "take_bit n w = w"
  show "\<forall>i. bit w i \<longrightarrow> i < n"
  proof (intro allI impI)
    fix i assume "bit w i"
    then have "bit (take_bit n w) i" by (simp add: h)
    then show "i < n" by (simp add: bit_take_bit_iff)
  qed
next
  assume "\<forall>i. bit w i \<longrightarrow> i < n"
  then show "take_bit n w = w"
    by (auto intro!: bit_eqI simp: bit_take_bit_iff)
qed

lemma take_bit_eq_0_iff_bits:
  fixes w :: "'a::len word"
  shows "take_bit m w = 0 \<longleftrightarrow> (\<forall>i. bit w i \<longrightarrow> m \<le> i)"
proof
  assume h: "take_bit m w = 0"
  show "\<forall>i. bit w i \<longrightarrow> m \<le> i"
  proof (intro allI impI, rule ccontr)
    fix i assume "bit w i" "\<not> m \<le> i"
    then have "bit (take_bit m w) i" by (simp add: bit_take_bit_iff)
    then show False by (simp add: h)
  qed
next
  assume h: "\<forall>i. bit w i \<longrightarrow> m \<le> i"
  show "take_bit m w = 0"
  proof (rule bit_eqI)
    fix i
    show "bit (take_bit m w) i = bit (0 :: 'a word) i"
      using h by (auto simp: bit_take_bit_iff)
  qed
qed

lemma accumulating_bits:
  "accumulating len s \<longleftrightarrow>
     0 \<le> bitstream_size s \<and> bitstream_size s < len
       \<and> (\<forall>i. bit (bitstream s) i \<longrightarrow> len - bitstream_size s \<le> int i \<and> int i < len)
       \<and> (bitstream_open s \<longrightarrow> chunk_open s)"
  unfolding accumulating_def take_bit_eq_self_iff_bits take_bit_eq_0_iff_bits
  by (auto simp: nat_le_iff)

lemma accumulating_zero: "accumulating 48 zero523" "accumulating 40 zero609"
  by (simp_all add: accumulating_def zero523_def zero609_def)

lemma accumulating_clear:
  "accumulating 48 s \<Longrightarrow> accumulating 48 (clear523 s)"
  "accumulating 40 t \<Longrightarrow> accumulating 40 (clear609 t)"
  by (simp_all add: accumulating_def clear523_def clear609_def)

lemma accumulating_parse_rf523:
  assumes "accumulating 48 s"
  shows "accumulating 48 (snd (parse_rf523 s duration rfs))"
  using assms
  by (auto simp: accumulating_bits parse_rf523_def Let_def framing523_defs
        bit_or_iff bit_exp_iff split: if_splits)

lemma accumulating_parse_rf609:
  assumes "accumulating 40 s"
  shows "accumulating 40 (snd (parse_rf609 s duration rfs))"
  using assms
  by (auto simp: accumulating_bits parse_rf609_def Let_def framing609_defs
        bit_or_iff bit_exp_iff split: if_splits)

lemma accumulating_step523: "accumulating 48 s \<Longrightarrow> accumulating 48 (step523 s c)"
  by (cases c) (simp_all add: accumulating_parse_rf523 accumulating_clear)

lemma accumulating_step609: "accumulating 40 s \<Longrightarrow> accumulating 40 (step609 s c)"
  by (cases c) (simp_all add: accumulating_parse_rf609 accumulating_clear)

lemma accumulating_run523: "accumulating 48 s \<Longrightarrow> accumulating 48 (run523 s cs)"
  by (induction cs arbitrary: s) (simp_all add: accumulating_step523)

lemma accumulating_run609: "accumulating 40 s \<Longrightarrow> accumulating 40 (run609 s cs)"
  by (induction cs arbitrary: s) (simp_all add: accumulating_step609)

lemmas reachable523 = accumulating_run523 [OF accumulating_zero(1)]
lemmas reachable609 = accumulating_run609 [OF accumulating_zero(2)]

lemma accumulating_framing_inv:
  assumes "accumulating len s"
  shows "framing_inv len s"
proof -
  have a: "take_bit (nat len) (bitstream s) = bitstream s"
    and b: "take_bit (nat (len - bitstream_size s)) (bitstream s) = 0"
    using assms by (simp_all add: accumulating_def)
  have "unat (bitstream s) = take_bit (nat len) (unat (bitstream s))"
    using a by (metis unsigned_take_bit_eq)
  then have 1: "unat (bitstream s) < 2 ^ nat len"
    by (metis take_bit_nat_less_exp)
  have "unat (take_bit (nat (len - bitstream_size s)) (bitstream s))
          = take_bit (nat (len - bitstream_size s)) (unat (bitstream s))"
    by (rule unsigned_take_bit_eq)
  also have "\<dots> = unat (bitstream s) mod 2 ^ nat (len - bitstream_size s)"
    by (rule take_bit_eq_mod)
  finally have 2: "unat (bitstream s) mod 2 ^ nat (len - bitstream_size s) = 0"
    by (simp add: b)
  show ?thesis
    using assms 1 2 by (simp add: framing_inv_def accumulating_def)
qed

text \<open>
  C2 (as amended). \<open>Acurite523::Model::clear\<close> resets \<open>bitstream\<close>, \<open>bitstream_size\<close>,
  \<open>bitstream_open\<close>, \<open>bitstream_opener_count\<close> and \<open>last_rfs_type\<close> and leaves
  \<open>chunk_open\<close> unchanged; \<open>Acurite609::Model::clear\<close> resets \<open>bitstream\<close>,
  \<open>bitstream_size\<close>, \<open>bitstream_open\<close> and \<open>last_rfs_type\<close> and leaves \<open>chunk_open\<close>
  unchanged as well, for every prior state of either model.
\<close>

theorem clear_preserves_chunk_open:
  "bitstream (clear523 s) = 0 \<and> bitstream_size (clear523 s) = 0
     \<and> bitstream_open (clear523 s) = False \<and> bitstream_opener_count (clear523 s) = 0
     \<and> last_rfs_type (clear523 s) = ACURITE523_SIGNAL_INV
     \<and> chunk_open (clear523 s) = chunk_open s \<and> is_acurite (clear523 s) = is_acurite s
     \<and> bitstream (clear609 t) = 0 \<and> bitstream_size (clear609 t) = 0
     \<and> bitstream_open (clear609 t) = False
     \<and> last_rfs_type (clear609 t) = ACURITE609_SIGNAL_INV
     \<and> chunk_open (clear609 t) = chunk_open t \<and> is_acurite (clear609 t) = is_acurite t"
  by (simp add: clear523_def clear609_def)

text \<open>
  C2 as stated fails: \<open>Acurite609::Model::clear\<close> does not reset \<open>chunk_open\<close>. A 00609
  model whose chunk was opened by a \<open>BITSTREAM_START\<close> pulse keeps it open across \<open>clear\<close>.
\<close>

theorem clear609_keeps_open_chunk:
  "chunk_open (run609 zero609 start609) \<and> chunk_open (clear609 (run609 zero609 start609))"
  by (simp add: start609_def eval609)

text \<open>
  C3. From the zero-initialised state, after every sequence of \<open>parse_rf\<close> and \<open>clear\<close>
  calls on either model, \<open>bitstream_size \<le> BIT_LENGTH\<close>, the accumulator is below
  \<open>2 ^ BIT_LENGTH\<close> and a multiple of \<open>2 ^ (BIT_LENGTH - bitstream_size)\<close>, and
  \<open>bitstream_open\<close> implies \<open>chunk_open\<close>. (The cleared state is the case of a sequence
  that starts with \<open>clear\<close>.)
\<close>

theorem framing_invariant:
  "framing_inv ACURITE523_SIGNAL_BIT_LENGTH (run523 zero523 cs)
     \<and> framing_inv ACURITE609_SIGNAL_BIT_LENGTH (run609 zero609 cs')"
  by (simp add: ACURITE523_SIGNAL_BIT_LENGTH_def ACURITE609_SIGNAL_BIT_LENGTH_def
        accumulating_framing_inv reachable523 reachable609)

theorem framing_invariant_witness:
  "bitstream_open (run523 zero523 burst) \<and> chunk_open (run523 zero523 burst)
     \<and> bitstream_size (run523 zero523 burst) = 47
     \<and> unat (bitstream (run523 zero523 burst)) mod 2 ^ 1 = 0
     \<and> bitstream_open (run609 zero609 burst) \<and> chunk_open (run609 zero609 burst)
     \<and> bitstream_size (run609 zero609 burst) = 39
     \<and> unat (bitstream (run609 zero609 burst)) mod 2 ^ 1 = 0"
  using framing_invariant [of burst burst]
  by (simp add: framing_inv_def burst523 burst609
        ACURITE523_SIGNAL_BIT_LENGTH_def ACURITE609_SIGNAL_BIT_LENGTH_def)

lemma emit523:
  assumes "accumulating 48 s" "fst (parse_rf523 s duration rfs) \<noteq> 0"
  shows "bitstream_size s = 47 \<and> chunk_open s
           \<and> (last_rfs_type s = ACURITE523_SIGNAL_BIT_0_OFF
                  \<and> get_rfs_type523 rfs duration = ACURITE523_SIGNAL_BIT_0_ON
                  \<and> fst (parse_rf523 s duration rfs) = bitstream s
                \<or> last_rfs_type s = ACURITE523_SIGNAL_BIT_1_OFF
                  \<and> get_rfs_type523 rfs duration = ACURITE523_SIGNAL_BIT_1_ON
                  \<and> fst (parse_rf523 s duration rfs) = bitstream s OR 1)
           \<and> chunk_open (snd (parse_rf523 s duration rfs))
           \<and> bitstream_size (snd (parse_rf523 s duration rfs)) = 0"
  using assms
  by (auto simp: accumulating_def parse_rf523_def Let_def framing523_defs split: if_splits)

lemma emit609:
  assumes "accumulating 40 s" "fst (parse_rf609 s duration rfs) \<noteq> 0"
  shows "bitstream_size s = 39 \<and> chunk_open s \<and> bitstream_open s
           \<and> last_rfs_type s = ACURITE609_SIGNAL_OFF
           \<and> (get_rfs_type609 rfs duration = ACURITE609_SIGNAL_BIT_0
                  \<and> fst (parse_rf609 s duration rfs) = bitstream s
                \<or> get_rfs_type609 rfs duration = ACURITE609_SIGNAL_BIT_1
                  \<and> fst (parse_rf609 s duration rfs) = bitstream s OR 1)
           \<and> chunk_open (snd (parse_rf609 s duration rfs))
           \<and> bitstream_size (snd (parse_rf609 s duration rfs)) = 0"
  using assms
  by (auto simp: accumulating_def parse_rf609_def Let_def framing609_defs split: if_splits)

lemma bit_on523:
  "get_rfs_type523 rfs duration = ACURITE523_SIGNAL_BIT_0_ON
     \<longleftrightarrow> rfs = 1 \<and> 300 \<le> duration \<and> duration < 500"
  "get_rfs_type523 rfs duration = ACURITE523_SIGNAL_BIT_1_ON
     \<longleftrightarrow> rfs = 1 \<and> 100 \<le> duration \<and> duration < 300"
  by (auto simp: get_rfs_type523_def word_le_nat_alt word_less_nat_alt)

lemma bit609:
  "get_rfs_type609 rfs duration = ACURITE609_SIGNAL_BIT_0
     \<longleftrightarrow> rfs = 1 \<and> 300 \<le> duration \<and> duration < 1200"
  "get_rfs_type609 rfs duration = ACURITE609_SIGNAL_BIT_1
     \<longleftrightarrow> rfs = 1 \<and> 1200 \<le> duration \<and> duration < 3000"
  by (auto simp: get_rfs_type609_def word_le_nat_alt word_less_nat_alt)

lemma burst_emit523: "parse_rf523 (run523 zero523 burst) 400 1 =
   (0xFF8000000000,
     \<lparr> is_acurite = False, chunk_open = True, bitstream = 0, bitstream_size = 0,
       bitstream_open = False, last_rfs_type = ACURITE523_SIGNAL_BIT_0_ON,
       bitstream_opener_count = 0 \<rparr>)"
  by (simp add: burst523 parse_rf523_def get_rfs_type523_def Let_def framing523_defs)

lemma burst_emit609: "parse_rf609 (run609 zero609 burst) 400 1 =
   (0x8000000000,
     \<lparr> is_acurite = False, chunk_open = True, bitstream = 0, bitstream_size = 0,
       bitstream_open = False, last_rfs_type = ACURITE609_SIGNAL_BIT_0 \<rparr>)"
  by (simp add: burst609 parse_rf609_def get_rfs_type609_def Let_def framing609_defs)

text \<open>
  C9. From the zero-initialised state (or the cleared one), \<open>bitstream_size < BIT_LENGTH\<close>
  holds at the start of every \<open>parse_rf\<close> call, and \<open>parse_rf\<close> returns a non-zero
  candidate only on the transition that accumulates the last bit: the model holds
  \<open>BIT_LENGTH - 1\<close> bits in an open chunk and the pulse is the ON half of a bit (the
  candidate is the accumulator with that bit shifted in). The branches that emit a buffer
  that is already full never return a candidate: \<open>CHUNK_END\<close> and \<open>BIT_1_ON\<close> after
  \<open>BIT_0_OFF\<close> for the 00523; \<open>BITSTREAM_START\<close>, \<open>BITSTREAM_END\<close> and \<open>CHUNK_END\<close>
  for the 00609.
\<close>

theorem emission_only_at_final_bit:
  "bitstream_size (run523 zero523 cs) < ACURITE523_SIGNAL_BIT_LENGTH
   \<and> (fst (parse_rf523 (run523 zero523 cs) duration rfs) \<noteq> 0 \<longrightarrow>
        bitstream_size (run523 zero523 cs) = ACURITE523_SIGNAL_BIT_LENGTH - 1
        \<and> chunk_open (run523 zero523 cs)
        \<and> (last_rfs_type (run523 zero523 cs) = ACURITE523_SIGNAL_BIT_0_OFF
              \<and> get_rfs_type523 rfs duration = ACURITE523_SIGNAL_BIT_0_ON
              \<and> fst (parse_rf523 (run523 zero523 cs) duration rfs)
                  = bitstream (run523 zero523 cs)
            \<or> last_rfs_type (run523 zero523 cs) = ACURITE523_SIGNAL_BIT_1_OFF
              \<and> get_rfs_type523 rfs duration = ACURITE523_SIGNAL_BIT_1_ON
              \<and> fst (parse_rf523 (run523 zero523 cs) duration rfs)
                  = bitstream (run523 zero523 cs) OR 1))
   \<and> (get_rfs_type523 rfs duration = ACURITE523_SIGNAL_CHUNK_END
        \<or> last_rfs_type (run523 zero523 cs) = ACURITE523_SIGNAL_BIT_0_OFF
           \<and> get_rfs_type523 rfs duration = ACURITE523_SIGNAL_BIT_1_ON \<longrightarrow>
        fst (parse_rf523 (run523 zero523 cs) duration rfs) = 0)
   \<and> bitstream_size (run609 zero609 cs') < ACURITE609_SIGNAL_BIT_LENGTH
   \<and> (fst (parse_rf609 (run609 zero609 cs') duration' rfs') \<noteq> 0 \<longrightarrow>
        bitstream_size (run609 zero609 cs') = ACURITE609_SIGNAL_BIT_LENGTH - 1
        \<and> chunk_open (run609 zero609 cs') \<and> bitstream_open (run609 zero609 cs')
        \<and> last_rfs_type (run609 zero609 cs') = ACURITE609_SIGNAL_OFF
        \<and> (get_rfs_type609 rfs' duration' = ACURITE609_SIGNAL_BIT_0
              \<and> fst (parse_rf609 (run609 zero609 cs') duration' rfs')
                  = bitstream (run609 zero609 cs')
            \<or> get_rfs_type609 rfs' duration' = ACURITE609_SIGNAL_BIT_1
              \<and> fst (parse_rf609 (run609 zero609 cs') duration' rfs')
                  = bitstream (run609 zero609 cs') OR 1))
   \<and> (get_rfs_type609 rfs' duration' = ACURITE609_SIGNAL_BITSTREAM_START
        \<or> get_rfs_type609 rfs' duration' = ACURITE609_SIGNAL_BITSTREAM_END
        \<or> get_rfs_type609 rfs' duration' = ACURITE609_SIGNAL_CHUNK_END \<longrightarrow>
        fst (parse_rf609 (run609 zero609 cs') duration' rfs') = 0)"
proof -
  have a: "accumulating 48 (run523 zero523 cs)" by (rule reachable523)
  have b: "accumulating 40 (run609 zero609 cs')" by (rule reachable609)
  have 1: "bitstream_size (run523 zero523 cs) < 48" using a by (simp add: accumulating_def)
  have 2: "bitstream_size (run609 zero609 cs') < 40" using b by (simp add: accumulating_def)
  note e1 = emit523 [OF a, of duration rfs]
  note e2 = emit609 [OF b, of duration' rfs']
  have 3: "fst (parse_rf523 (run523 zero523 cs) duration rfs) = 0"
    if "get_rfs_type523 rfs duration = ACURITE523_SIGNAL_CHUNK_END
        \<or> last_rfs_type (run523 zero523 cs) = ACURITE523_SIGNAL_BIT_0_OFF
           \<and> get_rfs_type523 rfs duration = ACURITE523_SIGNAL_BIT_1_ON"
  proof (rule ccontr)
    assume "fst (parse_rf523 (run523 zero523 cs) duration rfs) \<noteq> 0"
    from e1 [OF this] that show False by auto
  qed
  have 4: "fst (parse_rf609 (run609 zero609 cs') duration' rfs') = 0"
    if "get_rfs_type609 rfs' duration' = ACURITE609_SIGNAL_BITSTREAM_START
        \<or> get_rfs_type609 rfs' duration' = ACURITE609_SIGNAL_BITSTREAM_END
        \<or> get_rfs_type609 rfs' duration' = ACURITE609_SIGNAL_CHUNK_END"
  proof (rule ccontr)
    assume "fst (parse_rf609 (run609 zero609 cs') duration' rfs') \<noteq> 0"
    from e2 [OF this] that show False by auto
  qed
  show ?thesis
    unfolding ACURITE523_SIGNAL_BIT_LENGTH_def ACURITE609_SIGNAL_BIT_LENGTH_def
    using 1 2 3 4 e1 e2 by simp
qed

theorem emission_only_at_final_bit_witness:
  "fst (parse_rf523 (run523 zero523 burst) 400 1) \<noteq> 0
   \<and> bitstream_size (run523 zero523 burst) = 47
   \<and> get_rfs_type523 1 400 = ACURITE523_SIGNAL_BIT_0_ON
   \<and> fst (parse_rf609 (run609 zero609 burst) 400 1) \<noteq> 0
   \<and> bitstream_size (run609 zero609 burst) = 39
   \<and> get_rfs_type609 1 400 = ACURITE609_SIGNAL_BIT_0
   \<and> get_rfs_type523 1 30000 = ACURITE523_SIGNAL_CHUNK_END
   \<and> fst (parse_rf523 (run523 zero523 burst) 30000 1) = 0
   \<and> get_rfs_type609 1 30000 = ACURITE609_SIGNAL_CHUNK_END
   \<and> fst (parse_rf609 (run609 zero609 burst) 30000 1) = 0"
  using emission_only_at_final_bit [of burst 400 1 burst 400 1]
    emission_only_at_final_bit [of burst 30000 1 burst 30000 1]
  by (simp add: burst_emit523 burst_emit609 get_rfs_type523_def get_rfs_type609_def
        ACURITE523_SIGNAL_BIT_LENGTH_def ACURITE609_SIGNAL_BIT_LENGTH_def)

text \<open>
  C8 as stated fails. The classification tables overlap: an ON pulse of 300 to 499
  microseconds is \<open>BIT_0_ON\<close> for the 00523 and \<open>BIT_0\<close> for the 00609. In \<open>burst\<close> the
  00523 has received nine 1 bits of its own, the 00609 one 1 bit of its own, and both
  the same 38 zero bits; the next ON pulse of 400 microseconds completes the block of
  both models, and both return a non-zero candidate on it.
\<close>

theorem both_models_emit_on_one_event:
  "fst (parse_rf523 (run523 zero523 burst) 400 1) \<noteq> 0
     \<and> fst (parse_rf609 (run609 zero609 burst) 400 1) \<noteq> 0"
  by (simp add: burst_emit523 burst_emit609)

text \<open>
  C8 (as amended). For all call sequences driving the two models from their
  zero-initialised (or cleared) states, both \<open>parse_rf\<close> return a non-zero candidate on
  the same event only if that event is an ON pulse with \<open>300 \<le> duration < 500\<close>, which
  the 00523 classifies \<open>BIT_0_ON\<close> and the 00609 \<open>BIT_0\<close>; on every other event at most
  one model returns a candidate.
\<close>

theorem both_emit_only_on_shared_zero_bit:
  "fst (parse_rf523 (run523 zero523 cs) duration rfs) \<noteq> 0
     \<and> fst (parse_rf609 (run609 zero609 cs') duration rfs) \<noteq> 0
   \<longrightarrow> rfs = 1 \<and> 300 \<le> duration \<and> duration < 500
       \<and> get_rfs_type523 rfs duration = ACURITE523_SIGNAL_BIT_0_ON
       \<and> get_rfs_type609 rfs duration = ACURITE609_SIGNAL_BIT_0"
proof (intro impI, elim conjE)
  assume r1: "fst (parse_rf523 (run523 zero523 cs) duration rfs) \<noteq> 0"
    and r2: "fst (parse_rf609 (run609 zero609 cs') duration rfs) \<noteq> 0"
  from emit523 [OF reachable523 r1]
  have "get_rfs_type523 rfs duration = ACURITE523_SIGNAL_BIT_0_ON
          \<or> get_rfs_type523 rfs duration = ACURITE523_SIGNAL_BIT_1_ON" by blast
  then have t1: "rfs = 1 \<and> 100 \<le> duration \<and> duration < 500"
    by (auto simp: bit_on523 word_le_nat_alt word_less_nat_alt)
  from emit609 [OF reachable609 r2]
  have "get_rfs_type609 rfs duration = ACURITE609_SIGNAL_BIT_0
          \<or> get_rfs_type609 rfs duration = ACURITE609_SIGNAL_BIT_1" by blast
  then have t2: "rfs = 1 \<and> 300 \<le> duration \<and> duration < 3000"
    by (auto simp: bit609 word_le_nat_alt word_less_nat_alt)
  from t1 t2 have t: "rfs = 1 \<and> 300 \<le> duration \<and> duration < 500" by simp
  then show "rfs = 1 \<and> 300 \<le> duration \<and> duration < 500
       \<and> get_rfs_type523 rfs duration = ACURITE523_SIGNAL_BIT_0_ON
       \<and> get_rfs_type609 rfs duration = ACURITE609_SIGNAL_BIT_0"
    by (auto simp: bit_on523 bit609 word_le_nat_alt word_less_nat_alt)
qed

theorem both_emit_only_on_shared_zero_bit_witness:
  "fst (parse_rf523 (run523 zero523 burst) 400 1) \<noteq> 0
     \<and> fst (parse_rf609 (run609 zero609 burst) 400 1) \<noteq> 0
     \<and> (1 :: 8 word) = 1 \<and> (300 :: 32 word) \<le> 400 \<and> (400 :: 32 word) < 500
     \<and> get_rfs_type523 1 400 = ACURITE523_SIGNAL_BIT_0_ON
     \<and> get_rfs_type609 1 400 = ACURITE609_SIGNAL_BIT_0"
  using both_emit_only_on_shared_zero_bit [of burst 400 1 burst]
  by (simp add: burst_emit523 burst_emit609)

lemma float_ulp_binade:
  assumes "0 < u" "j \<le> k" "j = 0 \<or> u * 2 ^ (j + 23) \<le> a" "a < u * 2 ^ (j + 24)"
  shows "float_ulp k u a = u * 2 ^ j"
  using assms
proof (induction k arbitrary: u j)
  case 0
  then show ?case by simp
next
  case (Suc k)
  show ?case
  proof (cases "a < u * 2 ^ 24")
    case True
    have "j = 0"
    proof (rule ccontr)
      assume "j \<noteq> 0"
      then have "u * 2 ^ (j + 23) \<le> a" using Suc.prems by simp
      moreover have "(2::real) ^ 24 \<le> 2 ^ (j + 23)"
        using \<open>j \<noteq> 0\<close> by (intro power_increasing) auto
      then have "u * 2 ^ 24 \<le> u * 2 ^ (j + 23)"
        using \<open>0 < u\<close> by (intro mult_left_mono) auto
      ultimately show False using True by linarith
    qed
    with True show ?thesis by simp
  next
    case False
    then have j: "j \<noteq> 0" using Suc.prems by (cases j) auto
    then obtain j' where j': "j = Suc j'" by (cases j) auto
    have e1: "2 * u * 2 ^ (j' + 23) = u * 2 ^ (j + 23)"
      and e2: "2 * u * 2 ^ (j' + 24) = u * 2 ^ (j + 24)"
      unfolding j' by (simp_all add: power_add)
    have lo: "u * 2 ^ (j + 23) \<le> a" using Suc.prems j by blast
    have "float_ulp k (2 * u) a = (2 * u) * 2 ^ j'"
    proof (rule Suc.IH)
      show "0 < 2 * u" using Suc.prems by simp
      show "j' \<le> k" using Suc.prems j' by simp
      show "j' = 0 \<or> 2 * u * 2 ^ (j' + 23) \<le> a"
        unfolding e1 using lo by blast
      show "a < 2 * u * 2 ^ (j' + 24)"
        unfolding e2 using Suc.prems by blast
    qed
    with False j' show ?thesis by simp
  qed
qed

text \<open>
  The value of \<open>float32\<close> in a given binade: for \<open>2 ^ e \<le> \<bar>x\<bar> < 2 ^ (e + 1)\<close> take
  \<open>j = e + 126\<close>; the unit in the last place is \<open>2 ^ j / 2 ^ 149\<close>.
\<close>

lemma float32_binade:
  assumes "j \<le> 253" "j = 0 \<or> 2 ^ (j + 23) \<le> \<bar>x\<bar> * 2 ^ 149" "\<bar>x\<bar> * 2 ^ 149 < 2 ^ (j + 24)"
  shows "float32 x = of_int (round_half_even (x * 2 ^ 149 / 2 ^ j)) * 2 ^ j / 2 ^ 149"
proof -
  have u: "float_ulp 253 (1 / 2 ^ 149) \<bar>x\<bar> = (1 / 2 ^ 149) * 2 ^ j"
    using assms by (intro float_ulp_binade) (auto simp: field_simps)
  have "x / ((1 / 2 ^ 149) * 2 ^ j) = x * 2 ^ 149 / 2 ^ j"
    by simp
  then show ?thesis unfolding float32_def Let_def u by simp
qed

lemma float32_S1:
  "float32 1468 = 1468"
  "float32 (- 332) = - 332"
  "float32 (- (166 / 9)) = - (9670201 / 524288)"
  "float32 (- (48351005 / 262144)) = - (12087751 / 65536)"
  using float32_binade [of 136 1468] float32_binade [of 134 "- 332"]
    float32_binade [of 130 "- (166 / 9)"] float32_binade [of 133 "- (48351005 / 262144)"]
  by (simp_all add: round_half_even_def Let_def)

lemma float32_S4:
  "float32 8066 = 8066"
  "float32 (4033 / 10) = 6607667 / 16384"
  "float32 69 = 69"
  using float32_binade [of 138 8066] float32_binade [of 134 "4033 / 10"]
    float32_binade [of 132 69]
  by (simp_all add: round_half_even_def Let_def)

lemma float32_S3:
  "float32 694 = 694"
  "float32 (347 / 10) = 9096397 / 262144"
  "float32 37 = 37"
  using float32_binade [of 135 694] float32_binade [of 131 "347 / 10"]
    float32_binade [of 131 37]
  by (simp_all add: round_half_even_def Let_def)

lemmas device_defs =
  Device523_def Device609_def DEVICE_FREEZER_def DEVICE_FRIDGE_def DEVICE_OUTDOOR_def
  ACURITE523_SIG_FREEZER_def ACURITE523_SIG_FRIDGE_def ACURITE609_CHANNEL_ID_def

lemmas validate523_eval =
  validate_bitstream523_def validate_checksum523_def validate_parity523_def
  validate_parity_loop.simps Let_def

lemmas validate609_eval =
  validate_bitstream609_def validate_checksum609_def uint16_of_float_def truncate_float_def
  Let_def

lemma S1_accepted:
  "validate_bitstream523 (Device523 DEVICE_FREEZER) 0xC049C98B3C99 =
     (True, \<lparr> device = 9690, signature = 0xC049, battery = 3,
              temperature = - (9670201 / 524288) \<rparr>)"
  by (simp add: validate523_eval device_defs float32_S1)

lemma S3_accepted:
  "validate_bitstream609 (Device609 DEVICE_OUTDOOR) 0xC0A15B25E1 =
     (True, \<lparr> device = 8501, signature = 0xC0, battery = 2,
              temperature = 9096397 / 262144, humidity = 37 \<rparr>)"
  by (simp add: validate609_eval device_defs float32_S3)

lemma S4_rejected:
  "validate_bitstream609 (Device609 DEVICE_OUTDOOR) 0xC0AFC14575
     = (False, Device609 DEVICE_OUTDOOR)"
  by (simp add: validate609_eval device_defs float32_S4)

lemma float32_odd:
  "float32 8067 = 8067"
  "float32 125 = 125"
  "float32 (- (25 / 4)) = - (25 / 4)"
  "float32 695 = 695"
  "float32 7497 = 7497"
  "float32 (- (7497 / 20)) = - (12283085 / 32768)"
  using float32_binade [of 138 8067] float32_binade [of 132 125]
    float32_binade [of 128 "- (25 / 4)"] float32_binade [of 135 695]
    float32_binade [of 138 7497] float32_binade [of 134 "- (7497 / 20)"]
  by (simp_all add: round_half_even_def Let_def)

lemma S4_emit:
  "fst (parse_rf609 (run609 zero609 S4_stream) 1500 1) = 0xC0AFC14575"
  by (simp add: S4_stream_def pulses609_def start609_def one609_def zero_both_def eval609)

text \<open>
  C1. The sign test of \<open>Acurite609::Device::validate_bitstream\<close> reads the lowest bit of
  the raw temperature, not bit 12. The block \<open>0xC0AFC14575\<close> of \<open>docs/acurite609.md\<close> (raw
  \<open>0x1F82\<close>, -6.2 C, humidity 69, channel 2, checksum right) is decoded as 8066 / 20 =
  403.3 C and rejected, and the device is left as it was. The block \<open>0xC0AFC1C5F5\<close> with
  the odd raw value \<open>0x1F83\<close> is accepted at -6.25 C, and the block \<open>0xC0A15BA561\<close> with
  the odd raw value 695 (34.75 C) is decoded as -(0x2000 - 695) / 20 and rejected. The
  first block is one the framer delivers: \<open>parse_rf\<close> returns it on the last pulse of
  \<open>S4_stream\<close>.
\<close>

theorem sign_test_reads_lowest_bit:
  "validate_bitstream609 (Device609 DEVICE_OUTDOOR) 0xC0AFC14575
     = (False, Device609 DEVICE_OUTDOOR)
   \<and> validate_bitstream609 (Device609 DEVICE_OUTDOOR) 0xC0AFC1C5F5
     = (True, \<lparr> device = 8501, signature = 0xC0, battery = 2, temperature = - (25 / 4),
                humidity = 69 \<rparr>)
   \<and> validate_bitstream609 (Device609 DEVICE_OUTDOOR) 0xC0A15BA561
     = (False, Device609 DEVICE_OUTDOOR)
   \<and> fst (parse_rf609 (run609 zero609 S4_stream) 1500 1) = 0xC0AFC14575"
  unfolding S4_emit
  by (simp add: validate609_eval device_defs float32_S4 float32_odd float32_S3)

text \<open>
  C4 as stated fails: \<open>0xC0498B3C99\<close> has 40 bits, so its bits 47..32 are \<open>0x00C0\<close>, not
  the freezer's signature \<open>0xC049\<close>, and the freezer rejects it.
\<close>

theorem S1_as_printed_rejected:
  "\<not> fst (validate_bitstream523 (Device523 DEVICE_FREEZER) 0xC0498B3C99)"
  by (simp add: validate523_eval device_defs)

text \<open>
  C4 (as amended). The 48-bit block \<open>0xC049C98B3C99\<close> (the first sample of
  \<open>docs/acurite523.md\<close>) is accepted by the freezer: signature \<open>0xC049\<close>, both parity
  bits right, checksum byte \<open>0x99\<close>, raw value \<open>(0x0B << 7) | 0x3C = 1468\<close>, temperature
  the binary32 nearest to (1468 - 1800) / 18 (between -18.45 and -18.44), and battery
  field 3 (bits 31..30 of the third byte \<open>0xC9\<close>). \<open>create_payload(STATUS_OK)\<close> then
  yields model 1592, device 9690, status 1, battery 3, temperature -184 (the conversion
  to \<open>int16_t\<close> drops the fraction of -184.44) and humidity 0.
\<close>

theorem S1_block_accepted:
  "validate_bitstream523 (Device523 DEVICE_FREEZER) 0xC049C98B3C99 =
     (True, (Device523 DEVICE_FREEZER)\<lparr> battery := 3, temperature := float32 (- 332 / 18) \<rparr>)
   \<and> create_payload523 (snd (validate_bitstream523 (Device523 DEVICE_FREEZER) 0xC049C98B3C99))
        STATUS_OK =
     \<lparr> payload_tag = 0x38073162, payload_model = 1592, payload_device = 9690,
       payload_status = 1, payload_battery = 3, payload_temperature = word_of_int (- 184),
       payload_humidity = 0 \<rparr>
   \<and> sint (payload_temperature
        (create_payload523 (snd (validate_bitstream523 (Device523 DEVICE_FREEZER) 0xC049C98B3C99))
           STATUS_OK)) = - 184
   \<and> (ucast (drop_bit 32 (0xC049C98B3C99 :: 64 word)) :: 16 word) = ACURITE523_SIG_FREEZER
   \<and> validate_checksum523 0xC049C98B3C99
   \<and> (0xC049C98B3C99 :: 64 word) AND 0xff = 0x99
   \<and> validate_parity523 (ucast (drop_bit 15 (0xC049C98B3C99 :: 64 word) AND 1))
        (ucast (drop_bit 8 (0xC049C98B3C99 :: 64 word) AND 0x7f))
   \<and> validate_parity523 (ucast (drop_bit 23 (0xC049C98B3C99 :: 64 word) AND 1))
        (ucast (drop_bit 16 (0xC049C98B3C99 :: 64 word) AND 0x7f))
   \<and> push_bit 7 (uint (ucast (drop_bit 16 (0xC049C98B3C99 :: 64 word) AND 0x7f) :: 8 word))
        OR uint (ucast (drop_bit 8 (0xC049C98B3C99 :: 64 word) AND 0x7f) :: 8 word) = 1468
   \<and> - 18.45 < float32 (- 332 / 18) \<and> float32 (- 332 / 18) < - 18.44"
  unfolding S1_accepted
  by (simp add: create_payload523_def int16_of_float_def truncate_float_def
        float32_S1 device_defs TAG_TEMPMONITOR_def MODEL_ACURITE523_def STATUS_OK_def
        validate_checksum523_def validate_parity523_def validate_parity_loop.simps)

theorem S1_block_accepted_witness:
  "fst (validate_bitstream523 (Device523 DEVICE_FREEZER) 0xC049C98B3C99)
   \<and> payload_battery (create_payload523
        (snd (validate_bitstream523 (Device523 DEVICE_FREEZER) 0xC049C98B3C99)) STATUS_OK) = 3"
proof -
  have "validate_bitstream523 (Device523 DEVICE_FREEZER) 0xC049C98B3C99 =
     (True, (Device523 DEVICE_FREEZER)\<lparr> battery := 3, temperature := float32 (- 332 / 18) \<rparr>)"
    using S1_block_accepted by (rule conjunct1)
  then have 1: "fst (validate_bitstream523 (Device523 DEVICE_FREEZER) 0xC049C98B3C99)"
    by (simp only: fst_conv)
  have "create_payload523 (snd (validate_bitstream523 (Device523 DEVICE_FREEZER) 0xC049C98B3C99))
        STATUS_OK =
     \<lparr> payload_tag = 0x38073162, payload_model = 1592, payload_device = 9690,
       payload_status = 1, payload_battery = 3, payload_temperature = word_of_int (- 184),
       payload_humidity = 0 \<rparr>"
    using S1_block_accepted by (rule conjunct2 [THEN conjunct1])
  then have 2: "payload_battery (create_payload523
        (snd (validate_bitstream523 (Device523 DEVICE_FREEZER) 0xC049C98B3C99)) STATUS_OK) = 3"
    by (simp only: payload.select_convs)
  from 1 2 show ?thesis by (rule conjI)
qed

lemma and_ff_unat: "unat ((x :: 'a::len word) AND 0xff) = unat x mod 256"
proof -
  have "x AND 0xff = take_bit 8 x"
    by (simp add: take_bit_eq_mask mask_eq_exp_minus_1)
  moreover have "unat (take_bit 8 x) = take_bit 8 (unat x)"
    by (rule unsigned_take_bit_eq)
  moreover have "take_bit 8 (unat x) = unat x mod 2 ^ 8"
    by (rule take_bit_eq_mod)
  ultimately show ?thesis by simp
qed

lemma upt6: "[Suc 0..<6] = [1, 2, 3, 4, 5]" "[Suc 0..<5] = [1, 2, 3, 4]"
  by (simp_all add: upt_rec)

lemma top_byte:
  fixes w :: "64 word"
  assumes "take_bit (k + 8) w = w"
  shows "drop_bit k w AND 0xff = drop_bit k w"
proof (rule bit_eqI)
  fix n
  have m: "(0xff :: 64 word) = mask 8" by (simp add: mask_eq_exp_minus_1)
  have "bit w (k + n) \<Longrightarrow> n < 8"
    using assms by (auto simp: take_bit_eq_self_iff_bits)
  then show "bit (drop_bit k w AND 0xff) n = bit (drop_bit k w) n"
    unfolding m by (auto simp: bit_and_iff bit_drop_bit_eq bit_mask_iff)
qed

lemma unat_ucast_byte:
  fixes a :: "64 word"
  shows "unat (ucast (ucast (a AND 0xff) :: 8 word) :: 32 word) = unat a mod 256"
    and "unat (ucast (a AND 0xff) :: 32 word) = unat a mod 256"
proof -
  have lt: "unat a mod 256 < 256" by simp
  have 1: "unat (ucast (a AND 0xff) :: 8 word) = unat a mod 256"
    by (simp add: unsigned_ucast_eq take_bit_eq_mod and_ff_unat)
  have "unat (ucast (ucast (a AND 0xff) :: 8 word) :: 32 word)
          = (unat a mod 256) mod 2 ^ 32"
    unfolding unsigned_ucast_eq [where 'c = 32] 1 by (simp add: take_bit_eq_mod)
  then show "unat (ucast (ucast (a AND 0xff) :: 8 word) :: 32 word) = unat a mod 256"
    using lt by simp
  have "unat (ucast (a AND 0xff) :: 32 word) = (unat a mod 256) mod 2 ^ 32"
    unfolding unsigned_ucast_eq [where 'c = 32] and_ff_unat by (simp add: take_bit_eq_mod)
  then show "unat (ucast (a AND 0xff) :: 32 word) = unat a mod 256"
    using lt by simp
qed

lemma byte_sum_mod:
  fixes a b :: "64 word"
  shows "unat (a + b) mod 256 = (unat a + unat b) mod 256"
proof -
  have "(256 :: nat) dvd 2 ^ 64" by simp
  then show ?thesis
    by (simp add: unat_word_ariths mod_mod_cancel)
qed

lemma checksum523_sum:
  assumes "validate_checksum523 w" "take_bit 48 w = w"
  shows "low_byte_is_byte_sum 6 w"
proof -
  have top: "drop_bit 40 w AND 0xff = drop_bit 40 w"
    using top_byte [of 40 w] assms(2) by simp
  define S where "S = (drop_bit 8 w AND 0xff) + (drop_bit 16 w AND 0xff)
                + (drop_bit 24 w AND 0xff) + (drop_bit 32 w AND 0xff) + drop_bit 40 w"
  have "(ucast (ucast (w AND 0xff) :: 8 word) :: 32 word) = ucast (S AND 0xff)"
    using assms(1) unfolding validate_checksum523_def Let_def S_def by simp
  then have "unat (ucast (ucast (w AND 0xff) :: 8 word) :: 32 word)
               = unat (ucast (S AND 0xff) :: 32 word)"
    by simp
  then have "unat w mod 256 = unat S mod 256"
    unfolding unat_ucast_byte .
  moreover have "unat S mod 256
      = (unat (drop_bit 8 w AND 0xff) + unat (drop_bit 16 w AND 0xff)
          + unat (drop_bit 24 w AND 0xff) + unat (drop_bit 32 w AND 0xff)
          + unat (drop_bit 40 w AND 0xff)) mod 256"
    unfolding S_def top byte_sum_mod
    by (metis (no_types, opaque_lifting) byte_sum_mod mod_add_left_eq)
  ultimately show ?thesis
    by (simp add: low_byte_is_byte_sum_def upt6 and_ff_unat add.assoc)
qed

lemma checksum609_sum:
  assumes "validate_checksum609 w" "take_bit 40 w = w"
  shows "low_byte_is_byte_sum 5 w"
proof -
  have top: "drop_bit 32 w AND 0xff = drop_bit 32 w"
    using top_byte [of 32 w] assms(2) by simp
  define S where "S = (drop_bit 8 w AND 0xff) + (drop_bit 16 w AND 0xff)
                + (drop_bit 24 w AND 0xff) + drop_bit 32 w"
  have "(ucast (ucast (w AND 0xff) :: 8 word) :: 32 word) = ucast (S AND 0xff)"
    using assms(1) unfolding validate_checksum609_def Let_def S_def by simp
  then have "unat (ucast (ucast (w AND 0xff) :: 8 word) :: 32 word)
               = unat (ucast (S AND 0xff) :: 32 word)"
    by simp
  then have "unat w mod 256 = unat S mod 256"
    unfolding unat_ucast_byte .
  moreover have "unat S mod 256
      = (unat (drop_bit 8 w AND 0xff) + unat (drop_bit 16 w AND 0xff)
          + unat (drop_bit 24 w AND 0xff) + unat (drop_bit 32 w AND 0xff)) mod 256"
    unfolding S_def top byte_sum_mod
    by (metis (no_types, opaque_lifting) byte_sum_mod mod_add_left_eq)
  ultimately show ?thesis
    by (simp add: low_byte_is_byte_sum_def upt6 and_ff_unat add.assoc)
qed

lemma accepted523_checksum:
  "fst (validate_bitstream523 d w) \<Longrightarrow> validate_checksum523 w"
  by (auto simp: validate_bitstream523_def Let_def split: if_splits)

lemma accepted609_checksum:
  "fst (validate_bitstream609 e w) \<Longrightarrow> validate_checksum609 w"
  by (auto simp: validate_bitstream609_def Let_def split: if_splits)

lemma validate_zero:
  "validate_bitstream523 d 0 = (False, d)" "validate_bitstream609 e 0 = (False, e)"
  by (simp_all add: validate_bitstream523_def validate_bitstream609_def)

lemma take_bit_or_1:
  fixes w :: "64 word"
  assumes "take_bit n w = w" "0 < n"
  shows "take_bit n (w OR 1) = w OR 1"
  using assms by simp

lemma emitted523_width:
  assumes "accumulating 48 s"
  shows "take_bit 48 (fst (parse_rf523 s duration rfs)) = fst (parse_rf523 s duration rfs)"
proof (cases "fst (parse_rf523 s duration rfs) = 0")
  case True
  then show ?thesis by simp
next
  case False
  have "take_bit 48 (bitstream s) = bitstream s"
    using assms by (simp add: accumulating_def)
  with emit523 [OF assms False] show ?thesis
    by (auto simp: take_bit_or_1)
qed

lemma emitted609_width:
  assumes "accumulating 40 s"
  shows "take_bit 40 (fst (parse_rf609 s duration rfs)) = fst (parse_rf609 s duration rfs)"
proof (cases "fst (parse_rf609 s duration rfs) = 0")
  case True
  then show ?thesis by simp
next
  case False
  have "take_bit 40 (bitstream s) = bitstream s"
    using assms by (simp add: accumulating_def)
  with emit609 [OF assms False] show ?thesis
    by (auto simp: take_bit_or_1)
qed

text \<open>
  C5 as stated fails: \<open>parse_rf\<close> checks no checksum. On the last pulse of \<open>burst\<close> the
  00609 returns \<open>0x8000000000\<close> and the 00523 returns \<open>0xFF8000000000\<close>; both have low byte
  0, and the higher bytes sum to \<open>0x80\<close> and \<open>0x17F\<close>.
\<close>

theorem emitted_checksum_unchecked:
  "fst (parse_rf609 (run609 zero609 burst) 400 1) \<noteq> 0
     \<and> \<not> low_byte_is_byte_sum 5 (fst (parse_rf609 (run609 zero609 burst) 400 1))
     \<and> fst (parse_rf523 (run523 zero523 burst) 400 1) \<noteq> 0
     \<and> \<not> low_byte_is_byte_sum 6 (fst (parse_rf523 (run523 zero523 burst) 400 1))"
  by (simp add: burst_emit523 burst_emit609 low_byte_is_byte_sum_def upt6)

text \<open>
  C5 (as amended). For every call sequence, every candidate that \<open>parse_rf\<close> of either
  model returns and that a device of that model accepts in \<open>validate_bitstream\<close> has its
  low byte equal to the sum of its higher bytes modulo 256 (five higher bytes for the
  00523, four for the 00609).
\<close>

theorem accepted_candidates_checksum:
  "(fst (validate_bitstream523 d (fst (parse_rf523 (run523 zero523 cs) duration rfs)))
      \<longrightarrow> low_byte_is_byte_sum 6 (fst (parse_rf523 (run523 zero523 cs) duration rfs)))
   \<and> (fst (validate_bitstream609 e (fst (parse_rf609 (run609 zero609 cs') duration' rfs')))
      \<longrightarrow> low_byte_is_byte_sum 5 (fst (parse_rf609 (run609 zero609 cs') duration' rfs')))"
  using checksum523_sum [OF accepted523_checksum emitted523_width [OF reachable523]]
    checksum609_sum [OF accepted609_checksum emitted609_width [OF reachable609]]
  by blast

lemmas block_defs =
  S1_stream_def S3_stream_def S5_stream_def zero_block523_def zero_block609_def
  pulses523_def pulses609_def opener523_def one523_def zero_both_def start609_def one609_def

lemmas step523_eval = parse_rf523_def get_rfs_type523_def Let_def framing523_defs
lemmas step609_eval = parse_rf609_def get_rfs_type609_def Let_def framing609_defs

lemma S1_state:
  "run523 zero523 S1_stream =
     \<lparr> is_acurite = False, chunk_open = True, bitstream = 0xC049C98B3C98, bitstream_size = 47,
       bitstream_open = True, last_rfs_type = ACURITE523_SIGNAL_BIT_1_OFF,
       bitstream_opener_count = 0 \<rparr>"
  by (simp add: block_defs repeat_simps eval523)

lemma S1_emit:
  "parse_rf523 (run523 zero523 S1_stream) 200 1 =
     (0xC049C98B3C99, (run523 zero523 S1_stream)
        \<lparr> bitstream := 0, bitstream_size := 0, bitstream_open := False,
          last_rfs_type := ACURITE523_SIGNAL_BIT_1_ON \<rparr>)"
  unfolding S1_state by (simp add: step523_eval)

lemma S5_state:
  "run523 zero523 S5_stream =
     \<lparr> is_acurite = False, chunk_open = True, bitstream = 0xC049C98B3C98, bitstream_size = 47,
       bitstream_open = True, last_rfs_type = ACURITE523_SIGNAL_BIT_0_OFF,
       bitstream_opener_count = 0 \<rparr>"
  by (simp add: block_defs repeat_simps eval523)

lemma S5_emit:
  "parse_rf523 (run523 zero523 S5_stream) 400 1 =
     (0xC049C98B3C98, (run523 zero523 S5_stream)
        \<lparr> bitstream := 0, bitstream_size := 0, bitstream_open := False,
          last_rfs_type := ACURITE523_SIGNAL_BIT_0_ON \<rparr>)"
  unfolding S5_state by (simp add: step523_eval)

lemma S3_state:
  "run609 zero609 S3_stream =
     \<lparr> is_acurite = False, chunk_open = True, bitstream = 0xC0A15B25E0, bitstream_size = 39,
       bitstream_open = True, last_rfs_type = ACURITE609_SIGNAL_OFF \<rparr>"
  by (simp add: block_defs repeat_simps eval609)

lemma S3_emit:
  "parse_rf609 (run609 zero609 S3_stream) 1500 1 =
     (0xC0A15B25E1, (run609 zero609 S3_stream)
        \<lparr> bitstream := 0, bitstream_size := 0, bitstream_open := False,
          last_rfs_type := ACURITE609_SIGNAL_BIT_1 \<rparr>)"
  unfolding S3_state by (simp add: step609_eval)

lemma zero_block523_state:
  "run523 zero523 zero_block523 =
     \<lparr> is_acurite = False, chunk_open = True, bitstream = 0, bitstream_size = 47,
       bitstream_open = True, last_rfs_type = ACURITE523_SIGNAL_BIT_0_OFF,
       bitstream_opener_count = 0 \<rparr>"
  by (simp add: block_defs repeat_simps eval523)

lemma zero_block609_state:
  "run609 zero609 zero_block609 =
     \<lparr> is_acurite = False, chunk_open = True, bitstream = 0, bitstream_size = 39,
       bitstream_open = True, last_rfs_type = ACURITE609_SIGNAL_OFF \<rparr>"
  by (simp add: block_defs repeat_simps eval609)

lemma S5_rejected:
  "validate_bitstream523 (Device523 DEVICE_FREEZER) 0xC049C98B3C98
     = (False, Device523 DEVICE_FREEZER)"
  "validate_bitstream523 (Device523 DEVICE_FRIDGE) 0xC049C98B3C98
     = (False, Device523 DEVICE_FRIDGE)"
  by (simp_all add: validate523_eval device_defs)

theorem accepted_candidates_checksum_witness:
  "fst (validate_bitstream523 (Device523 DEVICE_FREEZER)
          (fst (parse_rf523 (run523 zero523 S1_stream) 200 1)))
   \<and> low_byte_is_byte_sum 6 (fst (parse_rf523 (run523 zero523 S1_stream) 200 1))
   \<and> fst (validate_bitstream609 (Device609 DEVICE_OUTDOOR)
          (fst (parse_rf609 (run609 zero609 S3_stream) 1500 1)))
   \<and> low_byte_is_byte_sum 5 (fst (parse_rf609 (run609 zero609 S3_stream) 1500 1))"
  using accepted_candidates_checksum
    [of "Device523 DEVICE_FREEZER" S1_stream 200 1 "Device609 DEVICE_OUTDOOR" S3_stream 1500 1]
  by (simp add: S1_emit S3_emit S1_accepted S3_accepted)

lemma rejected_unchanged:
  "\<not> fst (validate_bitstream523 d w) \<Longrightarrow> snd (validate_bitstream523 d w) = d"
  "\<not> fst (validate_bitstream609 e w) \<Longrightarrow> snd (validate_bitstream609 e w) = e"
  by (auto simp: validate_bitstream523_def validate_bitstream609_def Let_def split: if_splits)

lemma parseRf_devices523_None:
  "(\<forall>d \<in> set ds. \<not> fst (validate_bitstream523 d w)) \<Longrightarrow> parseRf_devices523 ds w = None"
  by (induction ds) (auto split: prod.splits bool.splits)

lemma parseRf_devices609_None:
  "(\<forall>e \<in> set es. \<not> fst (validate_bitstream609 e w)) \<Longrightarrow> parseRf_devices609 es w = None"
  by (induction es) (auto split: prod.splits bool.splits)

lemma parseRf_None:
  assumes "\<forall>d \<in> set (devices523 g).
             \<not> fst (validate_bitstream523 d (fst (parse_rf523 (acurite523 g) duration rfs)))"
    and "\<forall>e \<in> set (devices609 g).
             \<not> fst (validate_bitstream609 e (fst (parse_rf609 (acurite609 g) duration rfs)))"
  shows "fst (parseRf g duration rfs) = (False, None)"
proof -
  obtain r1 m1 where p1: "parse_rf523 (acurite523 g) duration rfs = (r1, m1)"
    by (cases "parse_rf523 (acurite523 g) duration rfs")
  obtain r2 m2 where p2: "parse_rf609 (acurite609 g) duration rfs = (r2, m2)"
    by (cases "parse_rf609 (acurite609 g) duration rfs")
  have "parseRf_devices523 (devices523 g) r1 = None"
    using parseRf_devices523_None [OF assms(1)] by (simp add: p1)
  moreover have "parseRf_devices609 (devices609 g) r2 = None"
    using parseRf_devices609_None [OF assms(2)] by (simp add: p2)
  ultimately show ?thesis
    by (simp add: parseRf_def p1 p2 Let_def)
qed

lemma parseRf_devices:
  "devices523 (snd (parseRf g duration rfs)) = devices523 g"
  "devices609 (snd (parseRf g duration rfs)) = devices609 g"
  by (simp_all add: parseRf_def Let_def split: prod.splits option.splits)

text \<open>
  C7. For every device of either model and every candidate, a \<open>validate_bitstream\<close> that
  returns false leaves the device as it was; when no device accepts, the device loops of
  \<open>parseRf\<close> produce no payload and \<open>parseRf\<close> returns false (it never writes the
  \<open>devices\<close> vectors); and whenever the 00523 \<open>parse_rf\<close> returns a candidate, the framing
  state it leaves has \<open>chunk_open\<close> set and \<open>bitstream_size = 0\<close>.
\<close>

theorem rejection_is_atomic:
  "(\<not> fst (validate_bitstream523 d w) \<longrightarrow> snd (validate_bitstream523 d w) = d)
   \<and> (\<not> fst (validate_bitstream609 e w) \<longrightarrow> snd (validate_bitstream609 e w) = e)
   \<and> ((\<forall>d \<in> set ds. \<not> fst (validate_bitstream523 d w)) \<longrightarrow> parseRf_devices523 ds w = None)
   \<and> ((\<forall>e \<in> set es. \<not> fst (validate_bitstream609 e w)) \<longrightarrow> parseRf_devices609 es w = None)
   \<and> ((\<forall>d \<in> set (devices523 g).
          \<not> fst (validate_bitstream523 d (fst (parse_rf523 (acurite523 g) duration rfs))))
        \<and> (\<forall>e \<in> set (devices609 g).
          \<not> fst (validate_bitstream609 e (fst (parse_rf609 (acurite609 g) duration rfs))))
        \<longrightarrow> fst (parseRf g duration rfs) = (False, None))
   \<and> devices523 (snd (parseRf g duration rfs)) = devices523 g
   \<and> devices609 (snd (parseRf g duration rfs)) = devices609 g
   \<and> (fst (parse_rf523 (run523 zero523 cs) duration' rfs') \<noteq> 0
        \<longrightarrow> chunk_open (snd (parse_rf523 (run523 zero523 cs) duration' rfs'))
            \<and> bitstream_size (snd (parse_rf523 (run523 zero523 cs) duration' rfs')) = 0)"
  using rejected_unchanged(1) [of d w] rejected_unchanged(2) [of e w]
    parseRf_devices523_None [of ds w] parseRf_devices609_None [of es w]
    parseRf_None [of g duration rfs] parseRf_devices [of g duration rfs]
    emit523 [OF reachable523, of cs duration' rfs']
  by blast

lemma zero609_idle: "fst (parse_rf609 zero609 duration rfs) = 0"
  by (simp add: zero609_def step609_eval)

theorem rejection_is_atomic_witness:
  "fst (parse_rf523 (run523 zero523 S5_stream) 400 1) = 0xC049C98B3C98
   \<and> \<not> fst (validate_bitstream523 (Device523 DEVICE_FREEZER) 0xC049C98B3C98)
   \<and> snd (validate_bitstream523 (Device523 DEVICE_FREEZER) 0xC049C98B3C98)
        = Device523 DEVICE_FREEZER
   \<and> \<not> fst (validate_bitstream609 (Device609 DEVICE_OUTDOOR) 0xC0AFC14575)
   \<and> snd (validate_bitstream609 (Device609 DEVICE_OUTDOOR) 0xC0AFC14575)
        = Device609 DEVICE_OUTDOOR
   \<and> parseRf_devices523 [Device523 DEVICE_FREEZER, Device523 DEVICE_FRIDGE] 0xC049C98B3C98 = None
   \<and> parseRf_devices609 [Device609 DEVICE_OUTDOOR] 0xC0AFC14575 = None
   \<and> fst (parseRf (setup_monitor\<lparr> acurite523 := run523 zero523 S5_stream \<rparr>) 400 1)
        = (False, None)
   \<and> chunk_open (snd (parse_rf523 (run523 zero523 S5_stream) 400 1))
   \<and> bitstream_size (snd (parse_rf523 (run523 zero523 S5_stream) 400 1)) = 0"
  using
    rejection_is_atomic [of "Device523 DEVICE_FREEZER" "0xC049C98B3C98"
      "Device609 DEVICE_OUTDOOR" "[Device523 DEVICE_FREEZER, Device523 DEVICE_FRIDGE]"
      "[Device609 DEVICE_OUTDOOR]"
      "setup_monitor\<lparr> acurite523 := run523 zero523 S5_stream \<rparr>" 400 1 S5_stream 400 1]
    rejection_is_atomic [of "Device523 DEVICE_FREEZER" "0xC0AFC14575"
      "Device609 DEVICE_OUTDOOR" "[]" "[Device609 DEVICE_OUTDOOR]"
      "setup_monitor" 400 1 "[]" 400 1]
  by (simp add: S5_emit S5_rejected S4_rejected setup_monitor_def zero609_idle validate_zero)

lemma signature_byte:
  fixes w :: "64 word"
  assumes "take_bit 40 w = w"
  shows "(ucast (drop_bit 32 w) :: 16 word) = ucast (drop_bit 32 w AND 0xff)"
  using top_byte [of 32 w] assms by simp

text \<open>
  C6. \<open>Acurite609::Device::validate_bitstream\<close> returns false when the channel field
  (bits 29..28) differs from 2. When the stored signature is 0 the verdict is the one of
  a device whose stored signature equals the candidate's (so no signature value is
  refused), and on success the candidate's signature is stored. When the stored
  signature is not 0, a candidate with another signature is rejected, and an accepted
  one leaves the stored signature as it is. The signature is read from bits 47..32; for a
  40-bit candidate that is the byte at bits 39..32.
\<close>

theorem signature_latching609:
  "(uint (drop_bit 28 w AND 0x03) \<noteq> ACURITE609_CHANNEL_ID
      \<longrightarrow> \<not> fst (validate_bitstream609 d w))
   \<and> (signature d = 0 \<longrightarrow>
        fst (validate_bitstream609 d w)
          = fst (validate_bitstream609 (d\<lparr> signature := ucast (drop_bit 32 w) \<rparr>) w)
        \<and> (fst (validate_bitstream609 d w)
             \<longrightarrow> signature (snd (validate_bitstream609 d w)) = ucast (drop_bit 32 w)))
   \<and> (signature d \<noteq> 0 \<and> ucast (drop_bit 32 w) \<noteq> signature d
      \<longrightarrow> \<not> fst (validate_bitstream609 d w))
   \<and> (signature d \<noteq> 0 \<and> fst (validate_bitstream609 d w)
      \<longrightarrow> signature (snd (validate_bitstream609 d w)) = signature d)
   \<and> (take_bit 40 w = w
      \<longrightarrow> (ucast (drop_bit 32 w) :: 16 word) = ucast (drop_bit 32 w AND 0xff))"
  using signature_byte [of w]
  by (auto simp: validate_bitstream609_def Let_def split: if_splits)

theorem signature_latching609_witness:
  "\<not> fst (validate_bitstream609 (Device609 DEVICE_OUTDOOR) 0xC0915B25D1)
   \<and> signature (Device609 DEVICE_OUTDOOR) = 0
   \<and> fst (validate_bitstream609 (Device609 DEVICE_OUTDOOR) 0xC0A15B25E1)
   \<and> signature (snd (validate_bitstream609 (Device609 DEVICE_OUTDOOR) 0xC0A15B25E1)) = 0xC0
   \<and> \<not> fst (validate_bitstream609
              (snd (validate_bitstream609 (Device609 DEVICE_OUTDOOR) 0xC0A15B25E1))
              0x0F2123277A)
   \<and> take_bit 40 (0xC0A15B25E1 :: 64 word) = 0xC0A15B25E1"
proof -
  let ?d = "Device609 DEVICE_OUTDOOR"
  let ?d' = "snd (validate_bitstream609 ?d 0xC0A15B25E1)"
  have s0: "signature ?d = 0"
    by (simp add: Device609_def)
  have "uint (drop_bit 28 (0xC0915B25D1 :: 64 word) AND 0x03) \<noteq> ACURITE609_CHANNEL_ID"
    by (simp add: ACURITE609_CHANNEL_ID_def)
  with signature_latching609 [of "0xC0915B25D1" ?d]
  have 1: "\<not> fst (validate_bitstream609 ?d 0xC0915B25D1)"
    by blast
  have 2: "fst (validate_bitstream609 ?d 0xC0A15B25E1)"
    by (simp add: S3_accepted)
  with signature_latching609 [of "0xC0A15B25E1" ?d] s0
  have "signature ?d' = ucast (drop_bit 32 (0xC0A15B25E1 :: 64 word))"
    by blast
  then have 3: "signature ?d' = 0xC0"
    by simp
  have "signature ?d' \<noteq> 0 \<and> ucast (drop_bit 32 (0x0F2123277A :: 64 word)) \<noteq> signature ?d'"
    unfolding 3 by simp
  with signature_latching609 [of "0x0F2123277A" ?d']
  have 4: "\<not> fst (validate_bitstream609 ?d' 0x0F2123277A)"
    by blast
  have 5: "take_bit 40 (0xC0A15B25E1 :: 64 word) = 0xC0A15B25E1"
    by simp
  from 1 s0 2 3 4 5 show ?thesis
    by blast
qed

lemma zero_emit:
  "parse_rf523 (run523 zero523 zero_block523) 400 1 =
     (0, (run523 zero523 zero_block523)
        \<lparr> bitstream_size := 0, bitstream_open := False,
          last_rfs_type := ACURITE523_SIGNAL_BIT_0_ON \<rparr>)"
  "parse_rf609 (run609 zero609 zero_block609) 400 1 =
     (0, (run609 zero609 zero_block609)
        \<lparr> bitstream_size := 0, bitstream_open := False,
          last_rfs_type := ACURITE609_SIGNAL_BIT_0 \<rparr>)"
  unfolding zero_block523_state zero_block609_state
  by (simp_all add: step523_eval step609_eval)

lemma zero_buffer:
  "bitstream s = 0 \<Longrightarrow> get_rfs_type523 rfs duration \<noteq> ACURITE523_SIGNAL_BIT_1_ON
     \<Longrightarrow> fst (parse_rf523 s duration rfs) = 0"
  "bitstream t = 0 \<Longrightarrow> get_rfs_type609 rfs duration \<noteq> ACURITE609_SIGNAL_BIT_1
     \<Longrightarrow> fst (parse_rf609 t duration rfs) = 0"
  by (auto simp: parse_rf523_def parse_rf609_def Let_def framing523_defs framing609_defs
        split: if_splits)

lemma parseRf_idle:
  assumes "fst (parse_rf523 (acurite523 g) duration rfs) = 0"
    and "fst (parse_rf609 (acurite609 g) duration rfs) = 0"
  shows "fst (parseRf g duration rfs) = (False, None)"
proof -
  obtain m1 where p1: "parse_rf523 (acurite523 g) duration rfs = (0, m1)"
    using assms(1) by (cases "parse_rf523 (acurite523 g) duration rfs") auto
  obtain m2 where p2: "parse_rf609 (acurite609 g) duration rfs = (0, m2)"
    using assms(2) by (cases "parse_rf609 (acurite609 g) duration rfs") auto
  show ?thesis
    by (simp add: parseRf_def p1 p2 Let_def)
qed

text \<open>
  C10. A pulse stream that frames a block of zero bits only (48 bits for the 00523, 40
  for the 00609) makes \<open>parse_rf\<close> return 0 at the final bit, although the block is
  complete (the buffer held \<open>BIT_LENGTH - 1\<close> bits before the pulse and is reset after
  it); more generally a zero accumulator returns 0 on every pulse but a 1 bit. Every
  device's \<open>validate_bitstream\<close> returns false on 0 and leaves the device as it was, and
  \<open>parseRf\<close> produces no payload when both models return 0.
\<close>

theorem all_zero_block_unreportable:
  "bitstream_size (run523 zero523 zero_block523) = ACURITE523_SIGNAL_BIT_LENGTH - 1
   \<and> chunk_open (run523 zero523 zero_block523)
   \<and> fst (parse_rf523 (run523 zero523 zero_block523) 400 1) = 0
   \<and> bitstream_size (snd (parse_rf523 (run523 zero523 zero_block523) 400 1)) = 0
   \<and> bitstream_size (run609 zero609 zero_block609) = ACURITE609_SIGNAL_BIT_LENGTH - 1
   \<and> chunk_open (run609 zero609 zero_block609)
   \<and> fst (parse_rf609 (run609 zero609 zero_block609) 400 1) = 0
   \<and> bitstream_size (snd (parse_rf609 (run609 zero609 zero_block609) 400 1)) = 0
   \<and> (bitstream s = 0 \<and> get_rfs_type523 rfs duration \<noteq> ACURITE523_SIGNAL_BIT_1_ON
        \<longrightarrow> fst (parse_rf523 s duration rfs) = 0)
   \<and> (bitstream t = 0 \<and> get_rfs_type609 rfs' duration' \<noteq> ACURITE609_SIGNAL_BIT_1
        \<longrightarrow> fst (parse_rf609 t duration' rfs') = 0)
   \<and> validate_bitstream523 d 0 = (False, d)
   \<and> validate_bitstream609 e 0 = (False, e)
   \<and> (fst (parse_rf523 (acurite523 g) duration'' rfs'') = 0
        \<and> fst (parse_rf609 (acurite609 g) duration'' rfs'') = 0
        \<longrightarrow> fst (parseRf g duration'' rfs'') = (False, None))"
proof -
  have a: "bitstream_size (run523 zero523 zero_block523) = 47"
    "chunk_open (run523 zero523 zero_block523)"
    "bitstream_size (run609 zero609 zero_block609) = 39"
    "chunk_open (run609 zero609 zero_block609)"
    by (simp_all add: zero_block523_state zero_block609_state)
  have b: "fst (parse_rf523 (run523 zero523 zero_block523) 400 1) = 0"
    "bitstream_size (snd (parse_rf523 (run523 zero523 zero_block523) 400 1)) = 0"
    "fst (parse_rf609 (run609 zero609 zero_block609) 400 1) = 0"
    "bitstream_size (snd (parse_rf609 (run609 zero609 zero_block609) 400 1)) = 0"
    by (simp_all add: zero_emit)
  show ?thesis
    unfolding ACURITE523_SIGNAL_BIT_LENGTH_def ACURITE609_SIGNAL_BIT_LENGTH_def
    using a b zero_buffer(1) [of s rfs duration] zero_buffer(2) [of t rfs' duration']
      parseRf_idle [of g duration'' rfs''] validate_zero(1) [of d] validate_zero(2) [of e]
    by simp
qed

theorem all_zero_block_unreportable_witness:
  "bitstream (run523 zero523 zero_block523) = 0
   \<and> get_rfs_type523 1 400 \<noteq> ACURITE523_SIGNAL_BIT_1_ON
   \<and> fst (parse_rf523 (run523 zero523 zero_block523) 400 1) = 0
   \<and> bitstream (run609 zero609 zero_block609) = 0
   \<and> get_rfs_type609 1 400 \<noteq> ACURITE609_SIGNAL_BIT_1
   \<and> fst (parse_rf609 (run609 zero609 zero_block609) 400 1) = 0
   \<and> fst (parseRf (setup_monitor\<lparr> acurite523 := run523 zero523 zero_block523,
                                   acurite609 := run609 zero609 zero_block609 \<rparr>) 400 1)
       = (False, None)"
  using all_zero_block_unreportable
    [of "run523 zero523 zero_block523" 1 400 "run609 zero609 zero_block609" 1 400
        "Device523 DEVICE_FREEZER" "Device609 DEVICE_OUTDOOR"
        "setup_monitor\<lparr> acurite523 := run523 zero523 zero_block523,
                         acurite609 := run609 zero609 zero_block609 \<rparr>" 400 1]
  by (simp add: zero_emit zero_block523_state zero_block609_state setup_monitor_def
        get_rfs_type523_def get_rfs_type609_def)

end
